theory Spec2Isabelle
  imports Main "HOL-Library.AList"
begin

section \<open>Cross-pod home migration (home\_sync.py): values, errors and the world\<close>

text \<open>
  Python exceptions that the migration code raises itself or provokes by dereferencing
  \<open>None\<close>, indexing a dictionary or unpacking a non-sequence. All of them are
  instances of \<open>Exception\<close>, which is what \<open>except Exception\<close> catches.
\<close>

datatype exn =
    AttributeError string
  | KeyError string
  | TypeError string
  | ValueError string
  | DirectoryRecordNotFoundError string
  | StoreError string

fun str_exn :: "exn \<Rightarrow> string" where
  "str_exn (AttributeError m) = m"
| "str_exn (KeyError m) = m"
| "str_exn (TypeError m) = m"
| "str_exn (ValueError m) = m"
| "str_exn (DirectoryRecordNotFoundError m) = m"
| "str_exn (StoreError m) = m"

text \<open>
  What a call gives to the caller that yields on it: the value it returned, or the
  exception raised at the \<open>yield\<close>. The methods are \<open>inlineCallbacks\<close> generators; a
  \<open>Deferred\<close> that fires with a \<open>Failure\<close> raises the exception of the failure at the
  \<open>yield\<close> that waits for it.
\<close>

datatype 'a outcome = Returned 'a | Raised exn

text \<open>A transaction argument as Python sees it: \<open>None\<close> or a transaction object.\<close>

datatype txn_arg = PyNone | Txn nat

type_synonym kwargs = "(string \<times> txn_arg) list"

datatype event =
    NewTxn nat string
  | Commit nat
  | Abort nat
  | LogError string
  | ResourceNamesSinceToken nat "string option"
  | ObjectPurge nat nat string
  | ObjectSet nat nat string
  | ObjectCreate nat nat string
  | ObjectCopyMetadata nat nat string
  | CalendarPurge nat nat
  | SetMigrating nat
  | PhaseBegin string
  | PhaseEnd string
  | AttachmentRemove nat nat
  | MigrationRecordDelete nat nat
  | AttachmentCreate nat nat
  | MigrationRecordCreate nat nat nat
  | AttachmentCopyRemote nat nat nat

subsection \<open>The local store\<close>

record cal_object =
  obj_id :: nat
  obj_md5 :: string
  obj_component :: string
  obj_metadata :: string

record calendar =
  cal_home :: nat
  cal_name :: string
  cal_metadata :: string
  cal_objects :: "(string \<times> cal_object) list"

record home =
  home_id :: nat
  home_metadata :: string
  home_quotaUsed :: int

record attachment =
  att_home :: nat
  att_md5 :: string
  att_metadata :: string
  att_data :: string
  att_size :: int

record migration_record =
  calendarHomeResourceID :: nat
  remoteResourceID :: nat
  localResourceID :: nat

record calendar_migration_record = migration_record +
  lastSyncToken :: "string option"

record attachment_link =
  link_attachmentID :: nat
  link_calendarObjectID :: nat

record localdb =
  homes :: "(string \<times> home) list"
  calendars :: "(nat \<times> calendar) list"
  attachments :: "(nat \<times> attachment) list"
  calendar_migration :: "calendar_migration_record list"
  object_migration :: "migration_record list"
  attachment_migration :: "migration_record list"
  attachment_links :: "attachment_link list"
  next_id :: nat

record dirrecord =
  rec_uid :: string
  rec_thisServer :: bool

text \<open>
  The store, the transactions that are open (each with the store as it was when the
  transaction began), the trace of calls, and the attributes \<open>record\<close> and \<open>homeId\<close>
  of the sync object, \<open>None\<close> while they are not set.
\<close>

record world =
  db :: localdb
  snapshots :: "(nat \<times> localdb) list"
  events :: "event list"
  next_txn :: nat
  self_record :: "dirrecord option"
  self_homeId :: "nat option"

subsection \<open>Transactions and the log\<close>

text \<open>
  Modelled from the spec: the store's \<open>newTransaction(label)\<close>, \<open>commit()\<close> and
  \<open>abort()\<close>, and the logger, are not in the source file. A new transaction gets the
  next unused number and remembers the store as it was; \<open>abort\<close> puts that store
  back, \<open>commit\<close> keeps the current one. Each call is recorded in \<open>events\<close>,
  oldest first. The transactions of one sync object never overlap.
\<close>

definition newTransaction :: "string \<Rightarrow> world \<Rightarrow> nat \<times> world" where
  "newTransaction lbl w =
     (next_txn w,
      w\<lparr>snapshots := (next_txn w, db w) # snapshots w,
        events := events w @ [NewTxn (next_txn w) lbl],
        next_txn := Suc (next_txn w)\<rparr>)"

definition commit :: "nat \<Rightarrow> world \<Rightarrow> world" where
  "commit t w =
     w\<lparr>snapshots := filter (\<lambda>p. fst p \<noteq> t) (snapshots w),
       events := events w @ [Commit t]\<rparr>"

definition abort :: "nat \<Rightarrow> world \<Rightarrow> world" where
  "abort t w =
     w\<lparr>db := (case map_of (snapshots w) t of Some d \<Rightarrow> d | None \<Rightarrow> db w),
       snapshots := filter (\<lambda>p. fst p \<noteq> t) (snapshots w),
       events := events w @ [Abort t]\<rparr>"

definition log_error :: "string \<Rightarrow> world \<Rightarrow> world" where
  "log_error msg w = w\<lparr>events := events w @ [LogError msg]\<rparr>"

subsection \<open>The sync object's labels\<close>

definition label :: "string \<Rightarrow> string \<Rightarrow> string" where
  "label diruid detail = ''Cross-pod Migration Sync for '' @ diruid @ '': '' @ detail"

definition migratingUid :: "string \<Rightarrow> string" where
  "migratingUid diruid = ''Migrating-'' @ diruid"

definition BATCH_SIZE :: nat where
  "BATCH_SIZE = 50"

subsection \<open>inTransactionWrapper\<close>

text \<open>
  \<open>inTransactionWrapper name operation diruid kw\<close> is the decorated method
  \<open>_inTxn(self, *args, **kwargs)\<close>: \<open>name\<close> is \<open>operation.__name__\<close>, the
  positional arguments are already applied to \<open>operation\<close>, and \<open>kw\<close> are the
  keyword arguments. The test is \<open>"txn" in kwargs\<close>: presence of the key. On the
  path of \<open>except Exception\<close> the wrapper ends with \<open>returnValue(f)\<close>, \<open>f\<close> being
  the \<open>Failure\<close> of the exception: its \<open>Deferred\<close> fires with that failure, so the
  exception is raised at the \<open>yield\<close> of the caller.
\<close>

definition inTransactionWrapper ::
  "string \<Rightarrow> (txn_arg \<Rightarrow> kwargs \<Rightarrow> world \<Rightarrow> 'a outcome \<times> world) \<Rightarrow>
   string \<Rightarrow> kwargs \<Rightarrow> world \<Rightarrow> 'a outcome \<times> world" where
  "inTransactionWrapper name operation diruid kw w =
     (let lbl = label diruid name in
      case map_of kw ''txn'' of
        Some txn \<Rightarrow>
          (case operation txn (filter (\<lambda>p. fst p \<noteq> ''txn'') kw) w of
             (Returned result, w1) \<Rightarrow> (Returned result, w1)
           | (Raised ex, w1) \<Rightarrow> (Raised ex, w1))
      | None \<Rightarrow>
          (let (t, w0) = newTransaction lbl w in
           case operation (Txn t) kw w0 of
             (Raised ex, w1) \<Rightarrow>
               (Raised ex, log_error (lbl @ '' failed: '' @ str_exn ex) (abort t w1))
           | (Returned result, w1) \<Rightarrow> (Returned result, commit t w1)))"


subsection \<open>Sequencing calls that may raise\<close>

type_synonym 'a step = "world \<Rightarrow> 'a outcome \<times> world"

definition ret :: "'a \<Rightarrow> 'a step" where
  "ret x w = (Returned x, w)"

definition raise :: "exn \<Rightarrow> 'a step" where
  "raise e w = (Raised e, w)"

definition bind :: "'a step \<Rightarrow> ('a \<Rightarrow> 'b step) \<Rightarrow> 'b step" where
  "bind m f w = (case m w of (Returned x, w1) \<Rightarrow> f x w1 | (Raised e, w1) \<Rightarrow> (Raised e, w1))"

definition log_event :: "event \<Rightarrow> world \<Rightarrow> world" where
  "log_event e w = w\<lparr>events := events w @ [e]\<rparr>"

text \<open>\<open>txn.something\<close>: an attribute of \<open>None\<close> does not exist.\<close>

definition with_txn :: "txn_arg \<Rightarrow> (nat \<Rightarrow> 'a step) \<Rightarrow> 'a step" where
  "with_txn txn f =
     (case txn of PyNone \<Rightarrow> raise (AttributeError ''NoneType object has no attribute'')
      | Txn t \<Rightarrow> f t)"

text \<open>
  The decorated methods of this class take no keyword argument besides \<open>txn\<close>: any
  other one is an unexpected keyword argument.
\<close>

definition no_kwargs :: "kwargs \<Rightarrow> 'a step \<Rightarrow> 'a step" where
  "no_kwargs kw f = (if kw = [] then f else raise (TypeError ''unexpected keyword argument''))"

subsection \<open>The remote pod, the directory and the other collaborators\<close>

record remote_object =
  robj_id :: nat
  robj_name :: string
  robj_md5 :: string
  robj_component :: string
  robj_metadata :: string

record remote_calendar =
  rcal_id :: nat
  rcal_owned :: bool
  rcal_name :: string
  rcal_token :: string
  rcal_metadata :: string
  rcal_objects :: "remote_object list"

record remote_attachment =
  ratt_id :: nat
  ratt_md5 :: string
  ratt_metadata :: string
  ratt_data :: string
  ratt_size :: int

text \<open>
  Modelled from the spec: what the sync object reads and does not own. The directory
  service, the conduit (\<open>send_home_resource_id\<close>, \<open>None\<close> as \<open>null\<close>), the remote
  home behind the conduit (its home metadata, calendars, attachments and links; the answer
  of \<open>resourceNamesSinceToken\<close> for a calendar id and a token is left open) and the
  source of fresh calendar names (\<open>uuid.uuid4()\<close>). The order in which Python
  iterates over a \<open>set\<close> of ids follows the hashes and is left open as well:
  \<open>set_order\<close> takes the elements of a set to the order of iteration.
\<close>

record env =
  directory :: "string \<Rightarrow> dirrecord option"
  send_home_resource_id :: "dirrecord \<Rightarrow> nat option"
  remote_home_metadata :: string
  remote_children :: "remote_calendar list"
  resourceNamesSinceToken :: "nat \<Rightarrow> string option \<Rightarrow> string list \<times> string list \<times> bool"
  remote_attachments :: "remote_attachment list"
  remote_links :: "attachment_link list"
  uuid4 :: "nat \<Rightarrow> string"
  set_order :: "nat list \<Rightarrow> nat list"

definition remote_childWithID :: "env \<Rightarrow> nat \<Rightarrow> remote_calendar option" where
  "remote_childWithID rem i = find (\<lambda>c. rcal_id c = i) (remote_children rem)"

definition remote_objectResourcesWithNames ::
  "remote_calendar \<Rightarrow> string list \<Rightarrow> remote_object list" where
  "remote_objectResourcesWithNames c names =
     filter (\<lambda>obj. robj_name obj \<in> set names) (rcal_objects c)"

subsection \<open>The local store's interface\<close>

text \<open>
  Modelled from the spec: the store interface the sync object consumes
  (\<open>calendarHomeWithUID\<close>, \<open>childWithID\<close>, \<open>createChildWithName\<close>,
  \<open>objectResourcesWithNames\<close>, \<open>purge\<close>, \<open>copyMetadata\<close>, the internal raw create and
  update of an object, the managed attachments and the three migration tables) is not in
  the source file. A handle is the row's id; a lookup of a missing row gives \<open>None\<close>;
  new rows take the next unused id; deleting a row deletes its migration record with it.
\<close>

definition calendarHomeWithUID :: "string \<Rightarrow> localdb \<Rightarrow> home option" where
  "calendarHomeWithUID uid d = map_of (homes d) uid"

definition createHome :: "string \<Rightarrow> localdb \<Rightarrow> home \<times> localdb" where
  "createHome uid d =
     (case map_of (homes d) uid of
        Some h \<Rightarrow> (h, d)
      | None \<Rightarrow>
          (let h = \<lparr>home_id = next_id d, home_metadata = [], home_quotaUsed = 0\<rparr>
           in (h, d\<lparr>homes := homes d @ [(uid, h)], next_id := Suc (next_id d)\<rparr>)))"

definition childWithID :: "home \<Rightarrow> nat \<Rightarrow> localdb \<Rightarrow> nat option" where
  "childWithID h c d =
     (case map_of (calendars d) c of
        None \<Rightarrow> None
      | Some cal \<Rightarrow> if cal_home cal = home_id h then Some c else None)"

definition createChildWithName :: "home \<Rightarrow> string \<Rightarrow> localdb \<Rightarrow> nat \<times> localdb" where
  "createChildWithName h name d =
     (next_id d,
      d\<lparr>calendars := calendars d @
           [(next_id d, \<lparr>cal_home = home_id h, cal_name = name, cal_metadata = [],
                         cal_objects = []\<rparr>)],
        next_id := Suc (next_id d)\<rparr>)"

definition update_calendar :: "nat \<Rightarrow> (calendar \<Rightarrow> calendar) \<Rightarrow> localdb \<Rightarrow> localdb" where
  "update_calendar c f d =
     d\<lparr>calendars := map (\<lambda>p. if fst p = c then (fst p, f (snd p)) else p) (calendars d)\<rparr>"

definition objects_of :: "nat \<Rightarrow> localdb \<Rightarrow> (string \<times> cal_object) list" where
  "objects_of c d = (case map_of (calendars d) c of None \<Rightarrow> [] | Some cal \<Rightarrow> cal_objects cal)"

text \<open>
  A calendar's objects are found by name, one object per name: the result holds, for each
  requested name that has an object, that object.
\<close>

definition objectResourcesWithNames ::
  "nat \<Rightarrow> string list \<Rightarrow> localdb \<Rightarrow> (string \<times> cal_object) list" where
  "objectResourcesWithNames c names d =
     List.map_filter (\<lambda>n. map_option (Pair n) (map_of (objects_of c d) n)) (remdups names)"

definition calendar_purge :: "nat \<Rightarrow> localdb \<Rightarrow> localdb" where
  "calendar_purge c d =
     d\<lparr>calendars := filter (\<lambda>p. fst p \<noteq> c) (calendars d),
       calendar_migration := filter (\<lambda>r. localResourceID r \<noteq> c) (calendar_migration d),
       object_migration :=
         filter (\<lambda>r. localResourceID r \<notin> set (map (\<lambda>p. obj_id (snd p)) (objects_of c d)))
           (object_migration d)\<rparr>"

definition calendar_copyMetadata :: "nat \<Rightarrow> remote_calendar \<Rightarrow> localdb \<Rightarrow> localdb" where
  "calendar_copyMetadata c rc d =
     update_calendar c (\<lambda>cal. cal\<lparr>cal_name := rcal_name rc, cal_metadata := rcal_metadata rc\<rparr>) d"

definition home_copyMetadata :: "string \<Rightarrow> string \<Rightarrow> localdb \<Rightarrow> localdb" where
  "home_copyMetadata uid meta d =
     d\<lparr>homes := map (\<lambda>p. if fst p = uid then (fst p, (snd p)\<lparr>home_metadata := meta\<rparr>) else p)
                  (homes d)\<rparr>"

definition object_purge :: "nat \<Rightarrow> string \<times> cal_object \<Rightarrow> localdb \<Rightarrow> localdb" where
  "object_purge c obj d =
     (update_calendar c (\<lambda>cal. cal\<lparr>cal_objects := AList.delete (fst obj) (cal_objects cal)\<rparr>) d)
       \<lparr>object_migration :=
          filter (\<lambda>r. localResourceID r \<noteq> obj_id (snd obj)) (object_migration d)\<rparr>"

definition setComponentInternal :: "nat \<Rightarrow> string \<Rightarrow> string \<Rightarrow> string \<Rightarrow> localdb \<Rightarrow> localdb" where
  "setComponentInternal c name component md5 d =
     update_calendar c
       (\<lambda>cal. cal\<lparr>cal_objects :=
          map (\<lambda>p. if fst p = name
                    then (fst p, (snd p)\<lparr>obj_component := component, obj_md5 := md5\<rparr>) else p)
            (cal_objects cal)\<rparr>) d"

definition createCalendarObjectWithNameInternal ::
  "nat \<Rightarrow> string \<Rightarrow> string \<Rightarrow> string \<Rightarrow> localdb \<Rightarrow> nat \<times> localdb" where
  "createCalendarObjectWithNameInternal c name component md5 d =
     (next_id d,
      (update_calendar c
         (\<lambda>cal. cal\<lparr>cal_objects := cal_objects cal @
            [(name, \<lparr>obj_id = next_id d, obj_md5 = md5, obj_component = component,
                     obj_metadata = []\<rparr>)]\<rparr>) d)
        \<lparr>next_id := Suc (next_id d)\<rparr>)"

definition object_copyMetadata :: "nat \<Rightarrow> string \<Rightarrow> remote_object \<Rightarrow> localdb \<Rightarrow> localdb" where
  "object_copyMetadata c name robj d =
     update_calendar c
       (\<lambda>cal. cal\<lparr>cal_objects :=
          map (\<lambda>p. if fst p = name then (fst p, (snd p)\<lparr>obj_metadata := robj_metadata robj\<rparr>)
                    else p)
            (cal_objects cal)\<rparr>) d"

definition getAllAttachments :: "home \<Rightarrow> localdb \<Rightarrow> (nat \<times> attachment) list" where
  "getAllAttachments h d = filter (\<lambda>p. att_home (snd p) = home_id h) (attachments d)"

definition getAttachmentByID :: "home \<Rightarrow> nat \<Rightarrow> localdb \<Rightarrow> attachment option" where
  "getAttachmentByID h i d = map_of (getAllAttachments h d) i"

definition ManagedAttachment_load :: "nat \<Rightarrow> localdb \<Rightarrow> attachment option" where
  "ManagedAttachment_load i d = map_of (attachments d) i"

definition ManagedAttachment_create :: "nat \<Rightarrow> localdb \<Rightarrow> nat \<times> localdb" where
  "ManagedAttachment_create h d =
     (next_id d,
      d\<lparr>attachments := attachments d @
           [(next_id d, \<lparr>att_home = h, att_md5 = [], att_metadata = [], att_data = [],
                         att_size = 0\<rparr>)],
        next_id := Suc (next_id d)\<rparr>)"

text \<open>
  \<open>remove(adjustQuota)\<close> deletes the attachment with its mapping row and its links;
  with \<open>adjustQuota\<close> it also takes the size of the attachment off the used quota of
  the home that owns it.
\<close>

definition adjustQuotaUsedBytes :: "nat \<Rightarrow> int \<Rightarrow> localdb \<Rightarrow> localdb" where
  "adjustQuotaUsedBytes h delta d =
     d\<lparr>homes := map (\<lambda>p. if home_id (snd p) = h
                            then (fst p, (snd p)\<lparr>home_quotaUsed := home_quotaUsed (snd p) + delta\<rparr>)
                            else p)
                  (homes d)\<rparr>"

definition attachment_remove :: "bool \<Rightarrow> nat \<Rightarrow> localdb \<Rightarrow> localdb" where
  "attachment_remove adjustQuota i d =
     (let d1 = d\<lparr>attachments := filter (\<lambda>p. fst p \<noteq> i) (attachments d),
                  attachment_migration :=
                    filter (\<lambda>r. localResourceID r \<noteq> i) (attachment_migration d),
                  attachment_links :=
                    filter (\<lambda>l. link_attachmentID l \<noteq> i) (attachment_links d)\<rparr>
      in case map_of (attachments d) i of
           None \<Rightarrow> d1
         | Some a \<Rightarrow>
             if adjustQuota then adjustQuotaUsedBytes (att_home a) (- att_size a) d1 else d1)"

definition update_attachment :: "nat \<Rightarrow> (attachment \<Rightarrow> attachment) \<Rightarrow> localdb \<Rightarrow> localdb" where
  "update_attachment i f d =
     d\<lparr>attachments := map (\<lambda>p. if fst p = i then (fst p, f (snd p)) else p) (attachments d)\<rparr>"

definition copyRemote :: "nat \<Rightarrow> remote_attachment \<Rightarrow> localdb \<Rightarrow> localdb" where
  "copyRemote i ra d =
     update_attachment i
       (\<lambda>a. a\<lparr>att_md5 := ratt_md5 ra, att_metadata := ratt_metadata ra,
               att_size := ratt_size ra\<rparr>) d"

definition attachment_record_delete :: "migration_record \<Rightarrow> localdb \<Rightarrow> localdb" where
  "attachment_record_delete r d =
     d\<lparr>attachment_migration := filter (\<lambda>x. x \<noteq> r) (attachment_migration d)\<rparr>"


subsection \<open>Python values held in memory\<close>

text \<open>
  A \<open>CalendarMigrationRecord\<close> object in memory: the columns, and whether it was made
  here (\<open>isnew()\<close>) or loaded from the table.
\<close>

record mem_record =
  m_calendarHomeResourceID :: nat
  m_remoteResourceID :: nat
  m_localResourceID :: nat
  m_lastSyncToken :: "string option"
  m_isnew :: bool

type_synonym caldict = "(nat \<times> mem_record) list"

text \<open>
  \<open>dict(pairs)\<close>: a later pair replaces the value of an earlier one with the same key.
  Iteration over a dictionary is taken in the order of first insertion. A \<open>set\<close> is a
  list without repetition; a loop over it runs in the order \<open>set_order\<close> gives.
\<close>

definition dict_of :: "('k \<times> 'v) list \<Rightarrow> ('k \<times> 'v) list" where
  "dict_of pairs = foldl (\<lambda>d p. AList.update (fst p) (snd p) d) [] pairs"

definition mem_of_row :: "calendar_migration_record \<Rightarrow> mem_record" where
  "mem_of_row r =
     \<lparr>m_calendarHomeResourceID = calendarHomeResourceID r,
      m_remoteResourceID = remoteResourceID r,
      m_localResourceID = localResourceID r,
      m_lastSyncToken = lastSyncToken r,
      m_isnew = False\<rparr>"

text \<open>\<open>self.homeId\<close>: the attribute must have been set.\<close>

definition get_homeId :: "nat step" where
  "get_homeId w =
     (case self_homeId w of
        None \<Rightarrow> raise (AttributeError ''CrossPodHomeSync object has no attribute homeId'') w
      | Some h \<Rightarrow> ret h w)"

definition modify_db :: "(localdb \<Rightarrow> localdb) \<Rightarrow> world \<Rightarrow> world" where
  "modify_db f w = w\<lparr>db := f (db w)\<rparr>"

text \<open>A call of a decorated method with positional arguments only.\<close>

definition call_wrapped :: "string \<Rightarrow> (txn_arg \<Rightarrow> 'a step) \<Rightarrow> string \<Rightarrow> 'a step" where
  "call_wrapped name operation diruid =
     inTransactionWrapper name (\<lambda>txn kw. no_kwargs kw (operation txn)) diruid []"

subsection \<open>Loading the record and preparing the home\<close>

definition loadRecord :: "env \<Rightarrow> string \<Rightarrow> unit step" where
  "loadRecord rem diruid w =
     (let w1 = w\<lparr>self_record := directory rem diruid\<rparr> in
      case directory rem diruid of
        None \<Rightarrow>
          raise (DirectoryRecordNotFoundError
                   (''Cross-pod Migration Sync missing directory record for '' @ diruid)) w1
      | Some r \<Rightarrow>
          if rec_thisServer r
          then raise (ValueError
                   (''Cross-pod Migration Sync cannot sync with user already on this server: ''
                      @ diruid)) w1
          else ret () w1)"

definition prepareCalendarHome :: "string \<Rightarrow> txn_arg \<Rightarrow> nat step" where
  "prepareCalendarHome diruid txn =
     with_txn txn (\<lambda>t w.
       case calendarHomeWithUID (migratingUid diruid) (db w) of
         Some h \<Rightarrow> ret (home_id h) w
       | None \<Rightarrow>
           (let (h, d) = createHome (migratingUid diruid) (db w)
            in ret (home_id h) (w\<lparr>db := d\<rparr>)))"

text \<open>
  \<open>_remoteHome\<close>: the proxy is its resource id, or \<open>None\<close> when the conduit has none.
  The conduit is sent \<open>self.record\<close>, so the record must have been loaded.
\<close>

definition remoteHome :: "env \<Rightarrow> txn_arg \<Rightarrow> nat option step" where
  "remoteHome rem txn =
     with_txn txn (\<lambda>t w.
       case self_record w of
         None \<Rightarrow> raise (AttributeError ''no directory record'') w
       | Some r \<Rightarrow> ret (send_home_resource_id rem r) w)"

text \<open>
  \<open>local_home.copyMetadata(remote_home)\<close> reads the attributes of its argument, which
  \<open>None\<close> does not have.
\<close>

definition syncCalendarHomeMetaData :: "env \<Rightarrow> string \<Rightarrow> txn_arg \<Rightarrow> unit step" where
  "syncCalendarHomeMetaData rem diruid txn =
     bind (remoteHome rem txn) (\<lambda>remote_home.
       with_txn txn (\<lambda>t w.
         case calendarHomeWithUID (migratingUid diruid) (db w) of
           None \<Rightarrow> raise (AttributeError ''NoneType object has no attribute copyMetadata'') w
         | Some local_home \<Rightarrow>
             (case remote_home of
                None \<Rightarrow> raise (AttributeError ''NoneType object has no attribute'') w
              | Some rid \<Rightarrow>
                  ret () (modify_db (home_copyMetadata (migratingUid diruid)
                                       (remote_home_metadata rem)) w))))"

subsection \<open>The calendar list\<close>

definition getCalendarSyncList :: "env \<Rightarrow> txn_arg \<Rightarrow> caldict option step" where
  "getCalendarSyncList rem txn =
     bind (remoteHome rem txn) (\<lambda>home.
       case home of
         None \<Rightarrow> ret None
       | Some rid \<Rightarrow>
           ret (Some (foldl
             (\<lambda>results calendar.
                if rcal_owned calendar
                then AList.update (rcal_id calendar)
                       \<lparr>m_calendarHomeResourceID = rid,
                        m_remoteResourceID = rcal_id calendar,
                        m_localResourceID = 0,
                        m_lastSyncToken = Some (rcal_token calendar),
                        m_isnew = True\<rparr> results
                else results)
             [] (remote_children rem))))"

definition getSyncState :: "txn_arg \<Rightarrow> caldict step" where
  "getSyncState txn =
     bind get_homeId (\<lambda>h.
       with_txn txn (\<lambda>t w.
         ret (dict_of (map (\<lambda>r. (remoteResourceID r, mem_of_row r))
                (filter (\<lambda>r. calendarHomeResourceID r = h) (calendar_migration (db w))))) w))"

text \<open>
  \<open>insert\<close> adds the row with the record's columns. \<open>update\<close> sets the token of the
  row with the record's key.
\<close>

definition updateSyncState :: "txn_arg \<Rightarrow> mem_record \<Rightarrow> string option \<Rightarrow> unit step" where
  "updateSyncState txn stateRecord newSyncToken =
     (if m_isnew stateRecord
      then with_txn txn (\<lambda>t w.
        ret () (modify_db (\<lambda>d. d\<lparr>calendar_migration := calendar_migration d @
          [\<lparr>calendarHomeResourceID = m_calendarHomeResourceID stateRecord,
            remoteResourceID = m_remoteResourceID stateRecord,
            localResourceID = m_localResourceID stateRecord,
            lastSyncToken = newSyncToken\<rparr>]\<rparr>) w))
      else with_txn txn (\<lambda>t w.
        ret () (modify_db (\<lambda>d. d\<lparr>calendar_migration :=
          map (\<lambda>r. if calendarHomeResourceID r = m_calendarHomeResourceID stateRecord
                      \<and> remoteResourceID r = m_remoteResourceID stateRecord
                    then r\<lparr>lastSyncToken := newSyncToken\<rparr> else r)
            (calendar_migration d)\<rparr>) w)))"

primrec purgeLocal_loop :: "nat \<Rightarrow> home option \<Rightarrow> nat list \<Rightarrow> caldict \<Rightarrow> caldict step" where
  "purgeLocal_loop t home [] local_sync_state = ret local_sync_state"
| "purgeLocal_loop t home (remoteID # rest) local_sync_state =
     (case home of
        None \<Rightarrow> raise (AttributeError ''NoneType object has no attribute childWithID'')
      | Some h \<Rightarrow>
          (case map_of local_sync_state remoteID of
             None \<Rightarrow> raise (KeyError ''remoteID'')
           | Some r \<Rightarrow> (\<lambda>w.
               purgeLocal_loop t home rest (AList.delete remoteID local_sync_state)
                 (case childWithID h (m_localResourceID r) (db w) of
                    None \<Rightarrow> w
                  | Some c \<Rightarrow> log_event (CalendarPurge t c) (modify_db (calendar_purge c) w)))))"

text \<open>
  \<open>purgeLocal\<close> deletes from the caller's dictionary in place; the model returns the
  dictionary. The remote state is \<open>None\<close> when \<open>getCalendarSyncList\<close> returned
  \<open>None\<close>, and \<open>None\<close> has no \<open>keys\<close>.
\<close>

definition purgeLocal ::
  "env \<Rightarrow> string \<Rightarrow> txn_arg \<Rightarrow> caldict \<Rightarrow> caldict option \<Rightarrow> caldict step" where
  "purgeLocal rem diruid txn local_sync_state remote_sync_state =
     with_txn txn (\<lambda>t w.
       case remote_sync_state of
         None \<Rightarrow> raise (AttributeError ''NoneType object has no attribute keys'') w
       | Some rd \<Rightarrow>
           purgeLocal_loop t (calendarHomeWithUID (migratingUid diruid) (db w))
             (set_order rem
                (filter (\<lambda>k. k \<notin> set (map fst rd)) (map fst local_sync_state)))
             local_sync_state w)"

definition newCalendar :: "env \<Rightarrow> string \<Rightarrow> txn_arg \<Rightarrow> nat step" where
  "newCalendar rem diruid txn =
     with_txn txn (\<lambda>t w.
       case calendarHomeWithUID (migratingUid diruid) (db w) of
         None \<Rightarrow> raise (AttributeError ''NoneType object has no attribute createChildWithName'') w
       | Some h \<Rightarrow>
           (let (c, d) = createChildWithName h (uuid4 rem (next_id (db w))) (db w)
            in ret c (w\<lparr>db := d\<rparr>)))"

definition syncCalendarMetaData :: "env \<Rightarrow> string \<Rightarrow> txn_arg \<Rightarrow> mem_record \<Rightarrow> unit step" where
  "syncCalendarMetaData rem diruid txn migrationRecord =
     bind (remoteHome rem txn) (\<lambda>remote_home.
       case remote_home of
         None \<Rightarrow> raise (AttributeError ''NoneType object has no attribute childWithID'')
       | Some rid \<Rightarrow>
           (case remote_childWithID rem (m_remoteResourceID migrationRecord) of
              None \<Rightarrow> ret ()
            | Some remote_calendar \<Rightarrow>
                with_txn txn (\<lambda>t w.
                  case calendarHomeWithUID (migratingUid diruid) (db w) of
                    None \<Rightarrow>
                      raise (AttributeError ''NoneType object has no attribute childWithID'') w
                  | Some local_home \<Rightarrow>
                      (case childWithID local_home (m_localResourceID migrationRecord) (db w) of
                         None \<Rightarrow>
                           raise (AttributeError
                                    ''NoneType object has no attribute copyMetadata'') w
                       | Some c \<Rightarrow>
                           ret () (modify_db (calendar_copyMetadata c remote_calendar) w)))))"

subsection \<open>Objects of one calendar\<close>

definition findObjectsToSync ::
  "env \<Rightarrow> string \<Rightarrow> txn_arg \<Rightarrow> mem_record \<Rightarrow> (string list \<times> string list) option step" where
  "findObjectsToSync rem diruid txn migrationRecord =
     bind (remoteHome rem txn) (\<lambda>remote_home.
       case remote_home of
         None \<Rightarrow> raise (AttributeError ''NoneType object has no attribute childWithID'')
       | Some rid \<Rightarrow>
           (case remote_childWithID rem (m_remoteResourceID migrationRecord) of
              None \<Rightarrow> ret None
            | Some remote_calendar \<Rightarrow> (\<lambda>w0.
                let (changed, deleted, ignore_invalid) =
                      resourceNamesSinceToken rem (rcal_id remote_calendar)
                        (m_lastSyncToken migrationRecord);
                    w = log_event (ResourceNamesSinceToken (rcal_id remote_calendar)
                                     (m_lastSyncToken migrationRecord)) w0
                in
                case calendarHomeWithUID (migratingUid diruid) (db w) of
                  None \<Rightarrow>
                    raise (AttributeError ''NoneType object has no attribute childWithID'') w
                | Some local_home \<Rightarrow>
                    (case childWithID local_home (m_localResourceID migrationRecord) (db w) of
                       None \<Rightarrow>
                         raise (AttributeError
                           ''NoneType object has no attribute objectResourcesWithNames'') w
                     | Some c \<Rightarrow>
                         (let remote_changes =
                                dict_of (map (\<lambda>obj. (robj_name obj, obj))
                                  (remote_objectResourcesWithNames remote_calendar changed));
                              local_changes =
                                dict_of (objectResourcesWithNames c changed (db w));
                              actual_changes =
                                map fst (filter
                                  (\<lambda>p. case map_of local_changes (fst p) of
                                          None \<Rightarrow> True
                                        | Some lobj \<Rightarrow> robj_md5 (snd p) \<noteq> obj_md5 lobj)
                                  remote_changes)
                          in ret (Some (actual_changes, deleted)) w)))))"

primrec purge_objects :: "nat \<Rightarrow> nat \<Rightarrow> (string \<times> cal_object) list \<Rightarrow> world \<Rightarrow> world" where
  "purge_objects t c [] w = w"
| "purge_objects t c (local_object # rest) w =
     purge_objects t c rest
       (log_event (ObjectPurge t c (fst local_object)) (modify_db (object_purge c local_object) w))"

definition purgeBatch :: "string \<Rightarrow> txn_arg \<Rightarrow> nat \<Rightarrow> string list \<Rightarrow> unit step" where
  "purgeBatch diruid txn localID purge_names =
     with_txn txn (\<lambda>t w.
       case calendarHomeWithUID (migratingUid diruid) (db w) of
         None \<Rightarrow> raise (AttributeError ''NoneType object has no attribute childWithID'') w
       | Some local_home \<Rightarrow>
           (case childWithID local_home localID (db w) of
              None \<Rightarrow>
                raise (AttributeError
                         ''NoneType object has no attribute objectResourcesWithNames'') w
            | Some c \<Rightarrow>
                ret () (purge_objects t c (objectResourcesWithNames c purge_names (db w)) w)))"

text \<open>
  The \<open>while remaining:\<close> loop of \<open>purgeDeletedObjectsInBatches\<close> and of
  \<open>updateChangedObjectsInBatches\<close>: the first \<open>BATCH_SIZE\<close> names go to the batch
  method, then they are deleted from the list. An exception of the batch method leaves the
  loop.
\<close>

function in_batches :: "('b list \<Rightarrow> 'a step) \<Rightarrow> 'b list \<Rightarrow> unit step" where
  "in_batches batch remaining w =
     (if remaining = [] then (Returned (), w)
      else case batch (take BATCH_SIZE remaining) w of
             (Returned _, w1) \<Rightarrow> in_batches batch (drop BATCH_SIZE remaining) w1
           | (Raised e, w1) \<Rightarrow> (Raised e, w1))"
  by pat_completeness auto
termination
  by (relation "measure (\<lambda>(batch, remaining, w). length remaining)")
     (auto simp: BATCH_SIZE_def)

definition purgeDeletedObjectsInBatches ::
  "string \<Rightarrow> mem_record \<Rightarrow> string list \<Rightarrow> unit step" where
  "purgeDeletedObjectsInBatches diruid migrationRecord deleted =
     in_batches
       (\<lambda>names. call_wrapped ''purgeBatch''
          (\<lambda>txn. purgeBatch diruid txn (m_localResourceID migrationRecord) names) diruid)
       deleted"

primrec update_objects ::
  "nat \<Rightarrow> nat \<Rightarrow> (string \<times> remote_object) list \<Rightarrow> (string \<times> cal_object) list \<Rightarrow>
   (string \<times> cal_object) list step" where
  "update_objects t c [] local_objects = ret local_objects"
| "update_objects t c (p # rest) local_objects =
     (case map_of local_objects (fst p) of
        Some lobj \<Rightarrow> (\<lambda>w.
          update_objects t c rest (AList.delete (fst p) local_objects)
            (log_event (ObjectCopyMetadata t c (fst p))
              (modify_db (object_copyMetadata c (fst p) (snd p))
                (log_event (ObjectSet t c (fst p))
                  (modify_db (setComponentInternal c (fst p) (robj_component (snd p))
                                (robj_md5 (snd p))) w)))))
      | None \<Rightarrow> (\<lambda>w.
          let (oid, d) = createCalendarObjectWithNameInternal c (fst p)
                           (robj_component (snd p)) (robj_md5 (snd p)) (db w);
              w1 = log_event (ObjectCreate t c (fst p)) (w\<lparr>db := d\<rparr>)
          in case get_homeId w1 of
               (Raised e, w2) \<Rightarrow> (Raised e, w2)
             | (Returned h, w2) \<Rightarrow>
                 update_objects t c rest local_objects
                   (log_event (ObjectCopyMetadata t c (fst p))
                     (modify_db (object_copyMetadata c (fst p) (snd p))
                       (modify_db (\<lambda>d. d\<lparr>object_migration := object_migration d @
                          [\<lparr>calendarHomeResourceID = h, remoteResourceID = robj_id (snd p),
                            localResourceID = oid\<rparr>]\<rparr>) w2)))))"

definition updateBatch ::
  "env \<Rightarrow> string \<Rightarrow> txn_arg \<Rightarrow> nat \<Rightarrow> nat \<Rightarrow> string list \<Rightarrow> unit step" where
  "updateBatch rem diruid txn localID remoteID remaining =
     bind (remoteHome rem txn) (\<lambda>remote_home.
       case remote_home of
         None \<Rightarrow> raise (AttributeError ''NoneType object has no attribute childWithID'')
       | Some rid \<Rightarrow>
           (case remote_childWithID rem remoteID of
              None \<Rightarrow> ret ()
            | Some remote_calendar \<Rightarrow>
                with_txn txn (\<lambda>t w.
                  case calendarHomeWithUID (migratingUid diruid) (db w) of
                    None \<Rightarrow>
                      raise (AttributeError ''NoneType object has no attribute childWithID'') w
                  | Some local_home \<Rightarrow>
                      (case childWithID local_home localID (db w) of
                         None \<Rightarrow>
                           raise (AttributeError
                             ''NoneType object has no attribute objectResourcesWithNames'') w
                       | Some c \<Rightarrow>
                           bind (update_objects t c
                                   (dict_of (map (\<lambda>obj. (robj_name obj, obj))
                                      (remote_objectResourcesWithNames remote_calendar remaining)))
                                   (dict_of (objectResourcesWithNames c remaining (db w))))
                             (\<lambda>left. \<lambda>w1. ret () (purge_objects t c left w1))
                             (log_event (SetMigrating t) w)))))"

definition updateChangedObjectsInBatches ::
  "env \<Rightarrow> string \<Rightarrow> mem_record \<Rightarrow> string list \<Rightarrow> unit step" where
  "updateChangedObjectsInBatches rem diruid migrationRecord changed =
     in_batches
       (\<lambda>names. call_wrapped ''updateBatch''
          (\<lambda>txn. updateBatch rem diruid txn (m_localResourceID migrationRecord)
                    (m_remoteResourceID migrationRecord) names) diruid)
       changed"

subsection \<open>One calendar, and all of them\<close>

text \<open>
  \<open>syncCalendar\<close> adds the record of a new calendar to the caller's dictionary in place;
  the model returns the dictionary. Unpacking \<open>changed, deleted\<close> from \<open>None\<close> is a
  \<open>TypeError\<close>.
\<close>

definition syncCalendar ::
  "env \<Rightarrow> string \<Rightarrow> nat \<Rightarrow> caldict \<Rightarrow> caldict \<Rightarrow> caldict step" where
  "syncCalendar rem diruid remoteID local_sync_state remote_sync_state =
     bind (case map_of local_sync_state remoteID of
             Some r \<Rightarrow> ret local_sync_state
           | None \<Rightarrow>
               bind (call_wrapped ''newCalendar'' (newCalendar rem diruid) diruid)
                 (\<lambda>localID.
               bind get_homeId
                 (\<lambda>h. ret (AList.update remoteID
                             \<lparr>m_calendarHomeResourceID = h,
                              m_remoteResourceID = remoteID,
                              m_localResourceID = localID,
                              m_lastSyncToken = None,
                              m_isnew = True\<rparr> local_sync_state))))
       (\<lambda>local1.
          case map_of remote_sync_state remoteID of
            None \<Rightarrow> raise (KeyError ''remoteID'')
          | Some remote_record \<Rightarrow>
              (case map_of local1 remoteID of
                 None \<Rightarrow>
                   raise (AttributeError ''NoneType object has no attribute lastSyncToken'')
               | Some local_record \<Rightarrow>
                   bind (if m_lastSyncToken local_record \<noteq> m_lastSyncToken remote_record
                         then
                           bind (call_wrapped ''syncCalendarMetaData''
                                   (\<lambda>txn. syncCalendarMetaData rem diruid txn local_record)
                                   diruid)
                             (\<lambda>_.
                           bind (call_wrapped ''findObjectsToSync''
                                   (\<lambda>txn. findObjectsToSync rem diruid txn local_record)
                                   diruid)
                             (\<lambda>found.
                                case found of
                                  None \<Rightarrow> raise (TypeError ''NoneType object is not iterable'')
                                | Some (changed, deleted) \<Rightarrow>
                                    bind (purgeDeletedObjectsInBatches diruid
                                            local_record deleted)
                                      (\<lambda>_. updateChangedObjectsInBatches rem diruid
                                              local_record changed)))
                         else ret ())
                     (\<lambda>_.
                        bind (call_wrapped ''updateSyncState''
                                (\<lambda>txn. updateSyncState txn local_record
                                          (m_lastSyncToken remote_record))
                                diruid)
                          (\<lambda>_. ret local1))))"

primrec syncCalendar_each ::
  "env \<Rightarrow> string \<Rightarrow> nat list \<Rightarrow> caldict \<Rightarrow> caldict \<Rightarrow> unit step" where
  "syncCalendar_each rem diruid [] local_sync_state remote_sync_state = ret ()"
| "syncCalendar_each rem diruid (remoteID # rest) local_sync_state remote_sync_state =
     bind (syncCalendar rem diruid remoteID local_sync_state remote_sync_state)
       (\<lambda>local1. syncCalendar_each rem diruid rest local1 remote_sync_state)"

definition syncCalendarList :: "env \<Rightarrow> string \<Rightarrow> unit step" where
  "syncCalendarList rem diruid =
     bind (call_wrapped ''getCalendarSyncList'' (getCalendarSyncList rem) diruid)
       (\<lambda>remote_sync_state.
     bind (call_wrapped ''getSyncState'' getSyncState diruid)
       (\<lambda>local_sync_state.
     bind (call_wrapped ''purgeLocal''
             (\<lambda>txn. purgeLocal rem diruid txn local_sync_state remote_sync_state) diruid)
       (\<lambda>local1.
          case remote_sync_state of
            None \<Rightarrow> raise (AttributeError ''NoneType object has no attribute keys'')
          | Some rd \<Rightarrow> syncCalendar_each rem diruid (map fst rd) local1 rd)))"

subsection \<open>Attachments\<close>

type_synonym idmap = "(nat \<times> migration_record) list"

primrec remove_attachments :: "nat \<Rightarrow> idmap \<Rightarrow> nat list \<Rightarrow> unit step" where
  "remove_attachments t mapping [] = ret ()"
| "remove_attachments t mapping (remove_id # rest) =
     (case map_of mapping remove_id of
        None \<Rightarrow> raise (KeyError ''remove_id'')
      | Some record \<Rightarrow> (\<lambda>w.
          remove_attachments t mapping rest
            (case ManagedAttachment_load (localResourceID record) (db w) of
               Some att \<Rightarrow>
                 log_event (AttachmentRemove t (localResourceID record))
                   (modify_db (attachment_remove False (localResourceID record)) w)
             | None \<Rightarrow>
                 log_event (MigrationRecordDelete t remove_id)
                   (modify_db (attachment_record_delete record) w))))"

primrec add_attachments :: "nat \<Rightarrow> nat \<Rightarrow> nat list \<Rightarrow> nat list \<Rightarrow> nat list step" where
  "add_attachments t h [] data_ids = ret data_ids"
| "add_attachments t h (added_id # rest) data_ids =
     (\<lambda>w. let (aid, d) = ManagedAttachment_create h (db w)
           in add_attachments t h rest (List.insert aid data_ids)
                (log_event (MigrationRecordCreate t added_id aid)
                  (log_event (AttachmentCreate t aid)
                    (w\<lparr>db := d\<lparr>attachment_migration := attachment_migration d @
                       [\<lparr>calendarHomeResourceID = h, remoteResourceID = added_id,
                         localResourceID = aid\<rparr>]\<rparr>\<rparr>))))"

primrec update_attachments ::
  "nat \<Rightarrow> (nat \<times> remote_attachment) list \<Rightarrow> (nat \<times> attachment) list \<Rightarrow> idmap \<Rightarrow>
   nat list \<Rightarrow> nat list \<Rightarrow> nat list step" where
  "update_attachments t rmap lmap mapping [] data_ids = ret data_ids"
| "update_attachments t rmap lmap mapping (updated_id # rest) data_ids =
     (case map_of mapping updated_id of
        None \<Rightarrow> raise (KeyError ''updated_id'')
      | Some record \<Rightarrow>
          (case map_of rmap updated_id of
             None \<Rightarrow> raise (KeyError ''updated_id'')
           | Some ra \<Rightarrow>
               (case map_of lmap (localResourceID record) of
                  None \<Rightarrow> raise (KeyError ''local_id'')
                | Some la \<Rightarrow>
                    if ratt_md5 ra \<noteq> att_md5 la
                    then (\<lambda>w. update_attachments t rmap lmap mapping rest
                                 (List.insert (localResourceID record) data_ids)
                                 (log_event
                                    (AttachmentCopyRemote t (localResourceID record) updated_id)
                                    (modify_db (copyRemote (localResourceID record) ra) w)))
                    else update_attachments t rmap lmap mapping rest data_ids)))"

text \<open>
  The two results are Python sets. The three key sets are \<open>removed = mapping - rmap\<close>,
  \<open>added = rmap - mapping\<close> and \<open>updates = mapping & rmap\<close>; each loop runs over its
  set in the order of \<open>set_order\<close>. \<open>self.homeId\<close> is read by the query for the mapping
  rows.
\<close>

definition syncAttachmentTable :: "env \<Rightarrow> string \<Rightarrow> txn_arg \<Rightarrow> (nat list \<times> nat list) step" where
  "syncAttachmentTable rem diruid txn =
     bind (remoteHome rem txn) (\<lambda>remote_home.
       case remote_home of
         None \<Rightarrow> raise (AttributeError ''NoneType object has no attribute getAllAttachments'')
       | Some rid \<Rightarrow>
           with_txn txn (\<lambda>t w.
             case calendarHomeWithUID (migratingUid diruid) (db w) of
               None \<Rightarrow>
                 raise (AttributeError
                          ''NoneType object has no attribute getAllAttachments'') w
             | Some local_home \<Rightarrow>
                 bind get_homeId (\<lambda>h. \<lambda>w1.
                   let rmap = dict_of (map (\<lambda>a. (ratt_id a, a)) (remote_attachments rem));
                       lmap = dict_of (getAllAttachments local_home (db w1));
                       mapping = dict_of (map (\<lambda>r. (remoteResourceID r, r))
                                   (filter (\<lambda>r. calendarHomeResourceID r = h)
                                      (attachment_migration (db w1))));
                       removed = filter (\<lambda>k. k \<notin> set (map fst rmap)) (map fst mapping);
                       added = filter (\<lambda>k. k \<notin> set (map fst mapping)) (map fst rmap);
                       updates = filter (\<lambda>k. k \<in> set (map fst rmap)) (map fst mapping)
                   in bind (remove_attachments t mapping (set_order rem removed)) (\<lambda>_.
                      bind (add_attachments t h (set_order rem added) []) (\<lambda>data_ids.
                      bind (update_attachments t rmap lmap mapping (set_order rem updates)
                              data_ids)
                        (\<lambda>data_ids1. ret (data_ids1, removed)))) w1) w))"

definition readAttachmentData :: "env \<Rightarrow> nat \<Rightarrow> nat \<Rightarrow> unit step" where
  "readAttachmentData rem remote_id local_id w =
     (case find (\<lambda>a. ratt_id a = remote_id) (remote_attachments rem) of
        None \<Rightarrow> raise (StoreError ''no such remote attachment'') w
      | Some ra \<Rightarrow>
          ret () (modify_db (update_attachment local_id (\<lambda>a. a\<lparr>att_data := ratt_data ra\<rparr>)) w))"

definition syncAttachmentData :: "env \<Rightarrow> string \<Rightarrow> txn_arg \<Rightarrow> nat \<Rightarrow> unit step" where
  "syncAttachmentData rem diruid txn local_id =
     bind (remoteHome rem txn) (\<lambda>remote_home.
       with_txn txn (\<lambda>t w.
         case calendarHomeWithUID (migratingUid diruid) (db w) of
           None \<Rightarrow>
             raise (AttributeError ''NoneType object has no attribute getAttachmentByID'') w
         | Some local_home \<Rightarrow>
             (case getAttachmentByID local_home local_id (db w) of
                None \<Rightarrow> ret () w
              | Some att \<Rightarrow>
                  bind get_homeId (\<lambda>h. \<lambda>w1.
                    case filter (\<lambda>r. calendarHomeResourceID r = h \<and> localResourceID r = local_id)
                           (attachment_migration (db w1)) of
                      [] \<Rightarrow> ret () w1
                    | r # _ \<Rightarrow>
                        (case remote_home of
                           None \<Rightarrow>
                             raise (AttributeError
                               ''NoneType object has no attribute readAttachmentData'') w1
                         | Some rid \<Rightarrow>
                             readAttachmentData rem (remoteResourceID r) local_id w1)) w)))"

primrec syncAttachmentData_each :: "env \<Rightarrow> string \<Rightarrow> nat list \<Rightarrow> unit step" where
  "syncAttachmentData_each rem diruid [] = ret ()"
| "syncAttachmentData_each rem diruid (local_id # rest) =
     bind (call_wrapped ''syncAttachmentData''
             (\<lambda>txn. syncAttachmentData rem diruid txn local_id) diruid)
       (\<lambda>_. syncAttachmentData_each rem diruid rest)"

definition syncAttachments :: "env \<Rightarrow> string \<Rightarrow> (nat list \<times> nat list) step" where
  "syncAttachments rem diruid =
     bind (call_wrapped ''syncAttachmentTable'' (syncAttachmentTable rem diruid) diruid)
       (\<lambda>ids.
          bind (syncAttachmentData_each rem diruid (set_order rem (fst ids))) (\<lambda>_. ret ids))"

subsection \<open>sync\<close>

definition sync :: "env \<Rightarrow> string \<Rightarrow> unit step" where
  "sync rem diruid =
     bind (loadRecord rem diruid) (\<lambda>_.
     bind (call_wrapped ''prepareCalendarHome'' (prepareCalendarHome diruid) diruid) (\<lambda>hid.
     bind (\<lambda>w. ret () (w\<lparr>self_homeId := Some hid\<rparr>)) (\<lambda>_.
     bind (syncCalendarList rem diruid) (\<lambda>_.
     bind (call_wrapped ''syncCalendarHomeMetaData''
             (syncCalendarHomeMetaData rem diruid) diruid) (\<lambda>_.
     bind (syncAttachments rem diruid) (\<lambda>_. ret ()))))))"

subsection \<open>Attachment links\<close>

definition getAttachmentLinks :: "env \<Rightarrow> txn_arg \<Rightarrow> attachment_link list step" where
  "getAttachmentLinks rem txn =
     bind (remoteHome rem txn) (\<lambda>remote_home.
       case remote_home of
         None \<Rightarrow> raise (AttributeError ''NoneType object has no attribute getAttachmentLinks'')
       | Some rid \<Rightarrow> ret (remote_links rem))"

definition getAttachmentMappings :: "txn_arg \<Rightarrow> (idmap \<times> idmap) step" where
  "getAttachmentMappings txn =
     bind get_homeId (\<lambda>h.
       with_txn txn (\<lambda>t w.
         ret (dict_of (map (\<lambda>r. (remoteResourceID r, r))
                (filter (\<lambda>r. calendarHomeResourceID r = h) (attachment_migration (db w)))),
              dict_of (map (\<lambda>r. (remoteResourceID r, r))
                (filter (\<lambda>r. calendarHomeResourceID r = h) (object_migration (db w))))) w))"

primrec makeAttachmentLinks ::
  "txn_arg \<Rightarrow> attachment_link list \<Rightarrow> idmap \<Rightarrow> idmap \<Rightarrow> unit step" where
  "makeAttachmentLinks txn [] attachmentIDMap objectIDMap = ret ()"
| "makeAttachmentLinks txn (link # rest) attachmentIDMap objectIDMap =
     (case map_of attachmentIDMap (link_attachmentID link) of
        None \<Rightarrow> raise (KeyError ''attachmentID'')
      | Some arec \<Rightarrow>
          (case map_of objectIDMap (link_calendarObjectID link) of
             None \<Rightarrow> raise (KeyError ''calendarObjectID'')
           | Some orec \<Rightarrow>
               bind (with_txn txn (\<lambda>t w.
                       ret () (modify_db (\<lambda>d. d\<lparr>attachment_links := attachment_links d @
                         [\<lparr>link_attachmentID = localResourceID arec,
                           link_calendarObjectID = localResourceID orec\<rparr>]\<rparr>) w)))
                 (\<lambda>_. makeAttachmentLinks txn rest attachmentIDMap objectIDMap)))"

text \<open>The \<open>while len(links):\<close> loop of \<open>linkAttachments\<close>, in windows of 50.\<close>

function link_windows :: "('b list \<Rightarrow> 'a step) \<Rightarrow> 'b list \<Rightarrow> unit step" where
  "link_windows batch links w =
     (if length links = 0 then (Returned (), w)
      else case batch (take 50 links) w of
             (Returned _, w1) \<Rightarrow> link_windows batch (drop 50 links) w1
           | (Raised e, w1) \<Rightarrow> (Raised e, w1))"
  by pat_completeness auto
termination
  by (relation "measure (\<lambda>(batch, links, w). length links)") auto

definition linkAttachments :: "env \<Rightarrow> string \<Rightarrow> nat step" where
  "linkAttachments rem diruid =
     bind (call_wrapped ''getAttachmentLinks'' (getAttachmentLinks rem) diruid) (\<lambda>links.
     bind (call_wrapped ''getAttachmentMappings'' getAttachmentMappings diruid) (\<lambda>maps.
     bind (link_windows
             (\<lambda>window. call_wrapped ''makeAttachmentLinks''
                (\<lambda>txn. makeAttachmentLinks txn window (fst maps) (snd maps)) diruid)
             links)
       (\<lambda>_. ret (length links))))"

subsection \<open>The migration\<close>

text \<open>
  \<open>finalSync\<close> and \<open>migrateHere\<close> call methods of \<open>self\<close>; the methods are parameters
  here, in the order of the calls.
\<close>

definition finalSync :: "'a step \<Rightarrow> 'b step \<Rightarrow> unit step" where
  "finalSync linkAttachments_m delegateReconcile_m =
     bind linkAttachments_m (\<lambda>_. bind delegateReconcile_m (\<lambda>_. ret ()))"

definition migrateHere ::
  "'a step \<Rightarrow> 'b step \<Rightarrow> 'c step \<Rightarrow> 'd step \<Rightarrow> 'e step \<Rightarrow> unit step" where
  "migrateHere sync_m disableRemoteHome_m finalSync_m enableLocalHome_m removeRemoteHome_m =
     bind sync_m (\<lambda>_.
     bind sync_m (\<lambda>_.
     bind disableRemoteHome_m (\<lambda>_.
     bind sync_m (\<lambda>_.
     bind finalSync_m (\<lambda>_.
     bind enableLocalHome_m (\<lambda>_.
     bind removeRemoteHome_m (\<lambda>_. ret ())))))))"

text \<open>
  \<open>disableRemoteHome\<close>, \<open>enableLocalHome\<close> and \<open>removeRemoteHome\<close> are decorated with
  \<open>inlineCallbacks\<close> and their body is \<open>pass\<close>: without a \<open>yield\<close> the function is
  no generator function, it returns \<open>None\<close>, and \<open>inlineCallbacks\<close> raises a
  \<open>TypeError\<close> when the decorated function does not give a generator.
\<close>

definition not_a_generator :: "string \<Rightarrow> exn" where
  "not_a_generator name =
     TypeError (''inlineCallbacks requires '' @ name @ '' to produce a generator; instead got None'')"

definition disableRemoteHome :: "unit step" where
  "disableRemoteHome = raise (not_a_generator ''disableRemoteHome'')"

definition enableLocalHome :: "unit step" where
  "enableLocalHome = raise (not_a_generator ''enableLocalHome'')"

definition removeRemoteHome :: "unit step" where
  "removeRemoteHome = raise (not_a_generator ''removeRemoteHome'')"

subsection \<open>Observations on the event trace\<close>

definition txn_closes :: "nat \<Rightarrow> event list \<Rightarrow> nat" where
  "txn_closes t evs = length (filter (\<lambda>e. e = Commit t \<or> e = Abort t) evs)"

subsection \<open>Concrete inputs\<close>

definition empty_db :: localdb where
  "empty_db = \<lparr>homes = [], calendars = [], attachments = [], calendar_migration = [],
     object_migration = [], attachment_migration = [], attachment_links = [], next_id = 1\<rparr>"

definition world0 :: world where
  "world0 = \<lparr>db = empty_db, snapshots = [], events = [], next_txn = 0,
     self_record = None, self_homeId = None\<rparr>"

text \<open>An operation that needs its transaction, and fails in transaction number 1.\<close>

definition sample_operation :: "txn_arg \<Rightarrow> kwargs \<Rightarrow> nat step" where
  "sample_operation txn kw =
     with_txn txn (\<lambda>t. if t = 1 then raise (ValueError ''boom'') else ret (t + 40))"

definition user42 :: dirrecord where
  "user42 = \<lparr>rec_uid = ''user42'', rec_thisServer = False\<rparr>"

text \<open>
  A directory that knows \<open>user42\<close> on another pod and \<open>resident\<close> on this one, and a
  conduit that has no home for anybody.
\<close>

definition env_null :: env where
  "env_null =
     \<lparr>directory = (\<lambda>u. if u = ''user42'' then Some user42
                       else if u = ''resident''
                       then Some \<lparr>rec_uid = ''resident'', rec_thisServer = True\<rparr>
                       else None),
      send_home_resource_id = (\<lambda>r. None),
      remote_home_metadata = [],
      remote_children = [],
      resourceNamesSinceToken = (\<lambda>c tok. ([], [], False)),
      remote_attachments = [],
      remote_links = [],
      uuid4 = (\<lambda>n. replicate n (CHR ''u'')),
      set_order = rev\<rparr>"

text \<open>The sync object of \<open>user42\<close> after \<open>loadRecord\<close> and \<open>prepareCalendarHome\<close>.\<close>

definition world_user42 :: world where
  "world_user42 =
     \<lparr>db = empty_db\<lparr>homes := [(''Migrating-user42'',
                                 \<lparr>home_id = 1, home_metadata = [], home_quotaUsed = 0\<rparr>)],
                     next_id := 2\<rparr>,
      snapshots = [], events = [], next_txn = 0,
      self_record = Some user42, self_homeId = Some 1\<rparr>"


text \<open>A remote link rewritten to local ids, when both of its ids are in the maps.\<close>

definition rebind :: "idmap \<Rightarrow> idmap \<Rightarrow> attachment_link \<Rightarrow> attachment_link option" where
  "rebind attachmentIDMap objectIDMap link =
     (case map_of attachmentIDMap (link_attachmentID link) of
        None \<Rightarrow> None
      | Some arec \<Rightarrow>
          (case map_of objectIDMap (link_calendarObjectID link) of
             None \<Rightarrow> None
           | Some orec \<Rightarrow>
               Some \<lparr>link_attachmentID = localResourceID arec,
                     link_calendarObjectID = localResourceID orec\<rparr>))"

text \<open>One attachment map entry and one object map entry.\<close>

definition sample_maps :: "idmap \<times> idmap" where
  "sample_maps =
     ([(7, \<lparr>calendarHomeResourceID = 1, remoteResourceID = 7, localResourceID = 200\<rparr>)],
      [(31, \<lparr>calendarHomeResourceID = 1, remoteResourceID = 31, localResourceID = 101\<rparr>)])"


subsection \<open>Observing the phases of a migration\<close>

text \<open>
  \<open>mark name step\<close> is \<open>step\<close> with a marker logged when it starts and one when it has
  returned. \<open>phases\<close> keeps the markers of a trace.
\<close>

definition mark :: "string \<Rightarrow> 'a step \<Rightarrow> 'a step" where
  "mark name step w =
     (case step (log_event (PhaseBegin name) w) of
        (Returned x, w1) \<Rightarrow> (Returned x, log_event (PhaseEnd name) w1)
      | (Raised e, w1) \<Rightarrow> (Raised e, w1))"

fun is_phase :: "event \<Rightarrow> bool" where
  "is_phase (PhaseBegin n) = True"
| "is_phase (PhaseEnd n) = True"
| "is_phase e = False"

definition phases :: "event list \<Rightarrow> event list" where
  "phases evs = filter is_phase evs"

text \<open>
  A conduit with a home for \<open>user42\<close> that has no calendar and no attachment: every
  \<open>sync\<close> returns.
\<close>

definition env_home :: env where
  "env_home = env_null\<lparr>send_home_resource_id := (\<lambda>r. Some 5)\<rparr>"

text \<open>\<open>migrateHere\<close> of the sync object, every call of a method marked.\<close>

definition migrateHere_marked :: "env \<Rightarrow> string \<Rightarrow> unit step \<Rightarrow> unit step" where
  "migrateHere_marked rem diruid delegateReconcile_m =
     migrateHere (mark ''sync'' (sync rem diruid))
       (mark ''disableRemoteHome'' disableRemoteHome)
       (finalSync (mark ''linkAttachments'' (linkAttachments rem diruid))
          (mark ''delegateReconcile'' delegateReconcile_m))
       (mark ''enableLocalHome'' enableLocalHome)
       (mark ''removeRemoteHome'' removeRemoteHome)"

subsection \<open>Observing batches\<close>

text \<open>The transaction in which an event purges, overwrites or creates a calendar object.\<close>

fun object_write_txn :: "event \<Rightarrow> nat option" where
  "object_write_txn (ObjectPurge t c n) = Some t"
| "object_write_txn (ObjectSet t c n) = Some t"
| "object_write_txn (ObjectCreate t c n) = Some t"
| "object_write_txn e = None"

definition object_writes_in :: "nat \<Rightarrow> event list \<Rightarrow> nat" where
  "object_writes_in t evs = length (filter (\<lambda>e. object_write_txn e = Some t) evs)"

text \<open>A list cut into consecutive windows of \<open>n\<close> elements, the last one possibly shorter.\<close>

function windows :: "nat \<Rightarrow> 'a list \<Rightarrow> 'a list list" where
  "windows n xs = (if xs = [] \<or> n = 0 then [] else take n xs # windows n (drop n xs))"
  by pat_completeness auto
termination
  by (relation "measure (\<lambda>(n, xs). length xs)") auto

primrec run_windows :: "('b list \<Rightarrow> 'a step) \<Rightarrow> 'b list list \<Rightarrow> unit step" where
  "run_windows batch [] = ret ()"
| "run_windows batch (b # bs) = bind (batch b) (\<lambda>_. run_windows batch bs)"

text \<open>
  An operation run in transaction \<open>t\<close> that only adds events, writes at most \<open>n\<close>
  objects, all of them in \<open>t\<close>, and opens no transaction.
\<close>

definition bounded_op :: "(txn_arg \<Rightarrow> 'a step) \<Rightarrow> nat \<Rightarrow> bool" where
  "bounded_op operation n =
     (\<forall>t w. (\<exists>evs. events (snd (operation (Txn t) w)) = events w @ evs
                \<and> (\<forall>t'. object_writes_in t' evs \<le> (if t' = t then n else 0)))
           \<and> next_txn (snd (operation (Txn t) w)) = next_txn w)"

text \<open>A calendar with one object, for \<open>user42\<close>.\<close>

definition world_one_object :: world where
  "world_one_object =
     world_user42\<lparr>db := (db world_user42)
       \<lparr>calendars := [(3, \<lparr>cal_home = 1, cal_name = ''C'', cal_metadata = [],
            cal_objects = [(''e1.ics'', \<lparr>obj_id = 4, obj_md5 = ''x'', obj_component = ''v1'',
                                         obj_metadata = []\<rparr>)]\<rparr>)],
        next_id := 5\<rparr>\<rparr>"

definition record_10_3 :: mem_record where
  "record_10_3 =
     \<lparr>m_calendarHomeResourceID = 1, m_remoteResourceID = 10,
      m_localResourceID = 3, m_lastSyncToken = None, m_isnew = False\<rparr>"

text \<open>The same record, for a local calendar that does not exist.\<close>

definition record_10_99 :: mem_record where
  "record_10_99 = record_10_3\<lparr>m_localResourceID := 99\<rparr>"

text \<open>
  A conduit with a home for \<open>user42\<close>: one owned calendar (id 10, token A) with two
  events, one attachment, and one link from it to the first event. With the token A the
  remote calendar reports no change, with any other token both events.
\<close>

definition env_remote :: env where
  "env_remote =
     env_null\<lparr>send_home_resource_id := (\<lambda>r. Some 5),
       remote_home_metadata := ''alarms'',
       remote_children :=
         [\<lparr>rcal_id = 10, rcal_owned = True, rcal_name = ''C'', rcal_token = ''A'',
           rcal_metadata = ''m'',
           rcal_objects =
             [\<lparr>robj_id = 31, robj_name = ''e1.ics'', robj_md5 = ''x'', robj_component = ''v1'',
               robj_metadata = []\<rparr>,
              \<lparr>robj_id = 32, robj_name = ''e2.ics'', robj_md5 = ''y'', robj_component = ''v2'',
               robj_metadata = []\<rparr>]\<rparr>],
       resourceNamesSinceToken :=
         (\<lambda>c tok. if tok = Some ''A'' then ([], [], False)
                   else ([''e1.ics'', ''e2.ics''], [], False)),
       remote_attachments :=
         [\<lparr>ratt_id = 7, ratt_md5 = ''z'', ratt_metadata = ''a1'', ratt_data = ''bytes'',
           ratt_size = 5\<rparr>],
       remote_links := [\<lparr>link_attachmentID = 7, link_calendarObjectID = 31\<rparr>]\<rparr>"


subsection \<open>Which changed names need a sync\<close>

text \<open>
  The remote object of a name: the one that \<open>dict\<close> keeps, the last listed of that name.
\<close>

definition remote_last :: "remote_calendar \<Rightarrow> string \<Rightarrow> remote_object option" where
  "remote_last rc n = find (\<lambda>obj. robj_name obj = n) (rev (rcal_objects rc))"

text \<open>
  What the loop of \<open>findObjectsToSync\<close> keeps: a name whose remote object was fetched
  and that is absent locally or has another md5 locally.
\<close>

definition needs_sync ::
  "remote_calendar \<Rightarrow> (string \<times> cal_object) list \<Rightarrow> string \<Rightarrow> bool" where
  "needs_sync rc local n =
     (case remote_last rc n of
        None \<Rightarrow> False
      | Some robj \<Rightarrow>
          (case map_of local n of
             None \<Rightarrow> True
           | Some lobj \<Rightarrow> robj_md5 robj \<noteq> obj_md5 lobj))"

text \<open>
  The change set in the words of the specification: the names of \<open>changed\<close> that are
  absent locally or whose remote md5 differs from the local md5.
\<close>

definition spec_changes ::
  "remote_calendar \<Rightarrow> (string \<times> cal_object) list \<Rightarrow> string list \<Rightarrow> string list" where
  "spec_changes rc local changed =
     filter (\<lambda>n. map_of local n = None
                \<or> map_option robj_md5 (remote_last rc n) \<noteq> map_option obj_md5 (map_of local n))
       changed"

text \<open>
  The conduit of \<open>env_remote\<close>, except that the remote calendar reports a changed name
  that it has no object for.
\<close>

definition env_ghost :: env where
  "env_ghost = env_remote\<lparr>resourceNamesSinceToken :=
     (\<lambda>c tok. ([''ghost.ics'', ''e1.ics'', ''e2.ics''], [''old.ics''], False))\<rparr>"

subsection \<open>A mapping row whose local attachment is gone\<close>



section \<open>Properties\<close>

subsection \<open>Transactions\<close>

lemma events_newTransaction:
  "events (snd (newTransaction lbl w)) = events w @ [NewTxn (next_txn w) lbl]"
  by (simp add: newTransaction_def)

lemma events_commit: "events (commit t w) = events w @ [Commit t]"
  by (simp add: commit_def)

lemma db_commit: "db (commit t w) = db w"
  by (simp add: commit_def)

lemma events_abort_log:
  "events (log_error m (abort t w)) = events w @ [Abort t, LogError m]"
  by (simp add: log_error_def abort_def)

lemma inTransactionWrapper_supplied:
  "map_of kw ''txn'' = Some txn \<Longrightarrow>
   inTransactionWrapper name operation diruid kw w =
     operation txn (filter (\<lambda>p. fst p \<noteq> ''txn'') kw) w"
  by (simp add: inTransactionWrapper_def split: prod.splits outcome.splits)

lemma inTransactionWrapper_fresh:
  "map_of kw ''txn'' = None \<Longrightarrow>
   inTransactionWrapper name operation diruid kw w =
     (case operation (Txn (next_txn w)) kw (snd (newTransaction (label diruid name) w)) of
        (Returned r, w1) \<Rightarrow> (Returned r, commit (next_txn w) w1)
      | (Raised ex, w1) \<Rightarrow>
          (Raised ex,
           log_error (label diruid name @ '' failed: '' @ str_exn ex) (abort (next_txn w) w1)))"
  by (simp add: inTransactionWrapper_def newTransaction_def split: prod.splits outcome.splits)

lemma call_wrapped_eq:
  "call_wrapped name operation diruid w =
     (case operation (Txn (next_txn w)) (snd (newTransaction (label diruid name) w)) of
        (Returned r, w1) \<Rightarrow> (Returned r, commit (next_txn w) w1)
      | (Raised ex, w1) \<Rightarrow>
          (Raised ex,
           log_error (label diruid name @ '' failed: '' @ str_exn ex) (abort (next_txn w) w1)))"
  by (simp add: call_wrapped_def inTransactionWrapper_def newTransaction_def no_kwargs_def
      split: prod.splits outcome.splits)

text \<open>
  Where C1 as stated fails. The operation raises in a transaction the wrapper created:
  the call does not return a failure value, the caller has the exception raised, after
  the abort and the log entry.
\<close>

theorem inTransactionWrapper_failure_raised:
  "inTransactionWrapper ''op'' sample_operation ''u'' [] (world0\<lparr>next_txn := 1\<rparr>)
     = (Raised (ValueError ''boom''),
        world0\<lparr>events := [NewTxn 1 ''Cross-pod Migration Sync for u: op'', Abort 1,
                            LogError ''Cross-pod Migration Sync for u: op failed: boom''],
               next_txn := 2\<rparr>)"
  by (simp add: inTransactionWrapper_def sample_operation_def with_txn_def raise_def
      world0_def newTransaction_def abort_def log_error_def label_def)

text \<open>
  C1, as the code has it. A wrapped operation called with a \<open>txn\<close> keyword runs in that
  transaction and its result or exception comes back unchanged, the world being exactly
  what the operation left. Called without one, a transaction with the next number and the
  label of the operation's name is created; when the operation returns, the transaction
  is committed and the result returned; when it raises, the transaction is aborted, the
  failure is logged with the label, and the same exception is raised at the caller.
  Either way the wrapper adds exactly one commit or abort of that transaction to the
  trace.
\<close>

theorem inTransactionWrapper_scope:
  fixes operation :: "txn_arg \<Rightarrow> kwargs \<Rightarrow> world \<Rightarrow> 'a outcome \<times> world"
  shows
  "(\<forall>txn. map_of kw ''txn'' = Some txn \<longrightarrow>
      inTransactionWrapper name operation diruid kw w =
        operation txn (filter (\<lambda>p. fst p \<noteq> ''txn'') kw) w)
   \<and> (map_of kw ''txn'' = None \<longrightarrow>
        events (snd (newTransaction (label diruid name) w)) =
          events w @ [NewTxn (next_txn w) (label diruid name)]
      \<and> (\<forall>r w1. operation (Txn (next_txn w)) kw (snd (newTransaction (label diruid name) w))
                  = (Returned r, w1) \<longrightarrow>
            inTransactionWrapper name operation diruid kw w
              = (Returned r, commit (next_txn w) w1)
          \<and> events (commit (next_txn w) w1) = events w1 @ [Commit (next_txn w)]
          \<and> db (commit (next_txn w) w1) = db w1
          \<and> txn_closes (next_txn w) (events (commit (next_txn w) w1))
              = Suc (txn_closes (next_txn w) (events w1)))
      \<and> (\<forall>ex w1. operation (Txn (next_txn w)) kw (snd (newTransaction (label diruid name) w))
                  = (Raised ex, w1) \<longrightarrow>
            inTransactionWrapper name operation diruid kw w
              = (Raised ex,
                 log_error (label diruid name @ '' failed: '' @ str_exn ex)
                   (abort (next_txn w) w1))
          \<and> events (log_error (label diruid name @ '' failed: '' @ str_exn ex)
                      (abort (next_txn w) w1))
              = events w1 @ [Abort (next_txn w),
                             LogError (label diruid name @ '' failed: '' @ str_exn ex)]
          \<and> txn_closes (next_txn w)
                (events (log_error (label diruid name @ '' failed: '' @ str_exn ex)
                          (abort (next_txn w) w1)))
              = Suc (txn_closes (next_txn w) (events w1))))"
  by (simp add: inTransactionWrapper_supplied inTransactionWrapper_fresh events_newTransaction
      events_commit db_commit events_abort_log txn_closes_def)

theorem inTransactionWrapper_scope_witness:
  "map_of [(''txn'', Txn 7)] ''txn'' = Some (Txn 7)
   \<and> inTransactionWrapper ''op'' sample_operation ''u'' [(''txn'', Txn 7)] world0
       = (Returned 47, world0)
   \<and> inTransactionWrapper ''op'' sample_operation ''u'' [(''txn'', Txn 1)] world0
       = (Raised (ValueError ''boom''), world0)
   \<and> map_of ([] :: kwargs) ''txn'' = None
   \<and> fst (inTransactionWrapper ''op'' sample_operation ''u'' [] world0) = Returned 40
   \<and> events (snd (inTransactionWrapper ''op'' sample_operation ''u'' [] world0))
       = [NewTxn 0 ''Cross-pod Migration Sync for u: op'', Commit 0]
   \<and> fst (inTransactionWrapper ''op'' sample_operation ''u'' [] (world0\<lparr>next_txn := 1\<rparr>))
       = Raised (ValueError ''boom'')
   \<and> events (snd (inTransactionWrapper ''op'' sample_operation ''u'' [] (world0\<lparr>next_txn := 1\<rparr>)))
       = [NewTxn 1 ''Cross-pod Migration Sync for u: op'', Abort 1,
          LogError ''Cross-pod Migration Sync for u: op failed: boom'']"
  using inTransactionWrapper_scope [of "[(''txn'', Txn 7)]" "''op''" sample_operation "''u''" world0]
    inTransactionWrapper_scope [of "[(''txn'', Txn 1)]" "''op''" sample_operation "''u''" world0]
    inTransactionWrapper_scope [of "[]" "''op''" sample_operation "''u''" world0]
    inTransactionWrapper_scope [of "[]" "''op''" sample_operation "''u''" "world0\<lparr>next_txn := 1\<rparr>"]
  by (simp add: sample_operation_def with_txn_def ret_def raise_def world0_def
      newTransaction_def label_def)

text \<open>
  C9. A caller that passes \<open>txn=None\<close> has supplied the keyword: the wrapper creates no
  transaction, commits and aborts nothing and logs nothing, and calls the operation with
  \<open>None\<close> as its transaction; the outcome and the world are exactly those of the
  operation, so what the operation raises is raised as it is.
\<close>

theorem inTransactionWrapper_txn_None:
  fixes operation :: "txn_arg \<Rightarrow> kwargs \<Rightarrow> world \<Rightarrow> 'a outcome \<times> world"
  assumes "map_of kw ''txn'' = Some PyNone"
  shows "inTransactionWrapper name operation diruid kw w =
           operation PyNone (filter (\<lambda>p. fst p \<noteq> ''txn'') kw) w
       \<and> snd (inTransactionWrapper name operation diruid kw w)
           = snd (operation PyNone (filter (\<lambda>p. fst p \<noteq> ''txn'') kw) w)
       \<and> next_txn (snd (inTransactionWrapper name operation diruid kw w))
           = next_txn (snd (operation PyNone (filter (\<lambda>p. fst p \<noteq> ''txn'') kw) w))
       \<and> events (snd (inTransactionWrapper name operation diruid kw w))
           = events (snd (operation PyNone (filter (\<lambda>p. fst p \<noteq> ''txn'') kw) w))
       \<and> (\<forall>ex. fst (operation PyNone (filter (\<lambda>p. fst p \<noteq> ''txn'') kw) w) = Raised ex
             \<longrightarrow> fst (inTransactionWrapper name operation diruid kw w) = Raised ex)"
  using assms
  by (simp add: inTransactionWrapper_supplied)

theorem inTransactionWrapper_txn_None_witness:
  "map_of [(''txn'', PyNone)] ''txn'' = Some PyNone
   \<and> inTransactionWrapper ''op'' sample_operation ''u'' [(''txn'', PyNone)] world0
       = (Raised (AttributeError ''NoneType object has no attribute''), world0)
   \<and> events (snd (inTransactionWrapper ''op'' sample_operation ''u'' [(''txn'', PyNone)] world0))
       = []"
  using inTransactionWrapper_txn_None
          [of "[(''txn'', PyNone)]" "''op''" sample_operation "''u''" world0]
  by (simp add: sample_operation_def with_txn_def raise_def world0_def)

subsection \<open>Loading the directory record\<close>

text \<open>
  C8. \<open>loadRecord\<close> raises \<open>DirectoryRecordNotFoundError\<close> when the directory has no
  record for the uid and \<open>ValueError\<close> when the record is already on this server; in
  both cases \<open>sync\<close> raises the same error having changed nothing but the stored record
  (no transaction, no event, the store untouched). Otherwise \<open>loadRecord\<close> stores the
  record and returns.
\<close>

theorem loadRecord_errors:
  "(directory rem diruid = None \<longrightarrow>
      loadRecord rem diruid w =
        (Raised (DirectoryRecordNotFoundError
                   (''Cross-pod Migration Sync missing directory record for '' @ diruid)),
         w\<lparr>self_record := None\<rparr>)
    \<and> sync rem diruid w =
        (Raised (DirectoryRecordNotFoundError
                   (''Cross-pod Migration Sync missing directory record for '' @ diruid)),
         w\<lparr>self_record := None\<rparr>))
   \<and> (\<forall>r. directory rem diruid = Some r \<and> rec_thisServer r \<longrightarrow>
      loadRecord rem diruid w =
        (Raised (ValueError
                   (''Cross-pod Migration Sync cannot sync with user already on this server: ''
                      @ diruid)),
         w\<lparr>self_record := Some r\<rparr>)
    \<and> sync rem diruid w =
        (Raised (ValueError
                   (''Cross-pod Migration Sync cannot sync with user already on this server: ''
                      @ diruid)),
         w\<lparr>self_record := Some r\<rparr>))
   \<and> (\<forall>r. directory rem diruid = Some r \<and> \<not> rec_thisServer r \<longrightarrow>
      loadRecord rem diruid w = (Returned (), w\<lparr>self_record := Some r\<rparr>))"
  by (simp add: loadRecord_def sync_def bind_def raise_def ret_def)

theorem loadRecord_errors_witness:
  "directory env_null ''nobody'' = None
   \<and> fst (sync env_null ''nobody'' world0) =
       Raised (DirectoryRecordNotFoundError
                 ''Cross-pod Migration Sync missing directory record for nobody'')
   \<and> events (snd (sync env_null ''nobody'' world0)) = []
   \<and> db (snd (sync env_null ''nobody'' world0)) = empty_db
   \<and> rec_thisServer (the (directory env_null ''resident''))
   \<and> fst (sync env_null ''resident'' world0) =
       Raised (ValueError
         ''Cross-pod Migration Sync cannot sync with user already on this server: resident'')
   \<and> events (snd (sync env_null ''resident'' world0)) = []
   \<and> \<not> rec_thisServer (the (directory env_null ''user42''))
   \<and> loadRecord env_null ''user42'' world0 = (Returned (), world0\<lparr>self_record := Some user42\<rparr>)"
  using loadRecord_errors [of env_null "''nobody''" world0]
    loadRecord_errors [of env_null "''resident''" world0]
    loadRecord_errors [of env_null "''user42''" world0]
  by (simp add: env_null_def world0_def user42_def)

subsection \<open>A conduit without a home for the user\<close>

text \<open>
  C2, at the input where it fails. The conduit has no home for \<open>user42\<close>. The calendar
  list fetch returns \<open>None\<close> and commits. The attachment table sync, the attachment link
  fetch and the object batch update dereference \<open>None\<close>: each is aborted and logged, and
  the \<open>AttributeError\<close> is raised at the caller, so \<open>syncAttachments\<close> raises it too.
  \<open>sync\<close> as a whole raises as well, when \<open>purgeLocal\<close> asks \<open>None\<close> for its keys.
\<close>

theorem remote_home_null_not_noop:
  "call_wrapped ''getCalendarSyncList'' (getCalendarSyncList env_null) ''user42'' world_user42
     = (Returned None,
        world_user42\<lparr>events := [NewTxn 0 ''Cross-pod Migration Sync for user42: getCalendarSyncList'',
                                 Commit 0],
                     next_txn := 1\<rparr>)
   \<and> call_wrapped ''syncAttachmentTable'' (syncAttachmentTable env_null ''user42'') ''user42''
       world_user42
     = (Raised (AttributeError ''NoneType object has no attribute getAllAttachments''),
        world_user42\<lparr>events :=
           [NewTxn 0 ''Cross-pod Migration Sync for user42: syncAttachmentTable'', Abort 0,
            LogError ''Cross-pod Migration Sync for user42: syncAttachmentTable failed: NoneType object has no attribute getAllAttachments''],
          next_txn := 1\<rparr>)
   \<and> fst (syncAttachments env_null ''user42'' world_user42)
     = Raised (AttributeError ''NoneType object has no attribute getAllAttachments'')
   \<and> fst (call_wrapped ''getAttachmentLinks'' (getAttachmentLinks env_null) ''user42''
            world_user42)
     = Raised (AttributeError ''NoneType object has no attribute getAttachmentLinks'')
   \<and> fst (call_wrapped ''updateBatch''
            (\<lambda>txn. updateBatch env_null ''user42'' txn 3 10 [''e1.ics'']) ''user42''
            world_user42)
     = Raised (AttributeError ''NoneType object has no attribute childWithID'')
   \<and> fst (sync env_null ''user42'' world0)
     = Raised (AttributeError ''NoneType object has no attribute keys'')"
  by (simp add: call_wrapped_eq getCalendarSyncList_def syncAttachmentTable_def remoteHome_def
      syncAttachments_def getAttachmentLinks_def updateBatch_def
      sync_def loadRecord_def prepareCalendarHome_def syncCalendarList_def getSyncState_def
      get_homeId_def purgeLocal_def calendarHomeWithUID_def createHome_def migratingUid_def
      dict_of_def user42_def world0_def empty_db_def Let_def
      with_txn_def bind_def ret_def raise_def newTransaction_def commit_def abort_def
      log_error_def label_def world_user42_def env_null_def)

subsection \<open>Attachment links\<close>

lemma makeAttachmentLinks_ok:
  "\<forall>l\<in>set links. rebind am om l \<noteq> None \<Longrightarrow>
   makeAttachmentLinks (Txn t) links am om w =
     (Returned (),
      modify_db (\<lambda>d. d\<lparr>attachment_links :=
         attachment_links d @ List.map_filter (rebind am om) links\<rparr>) w)"
proof (induction links arbitrary: w)
  case Nil
  show ?case by (simp add: ret_def modify_db_def)
next
  case (Cons l links)
  from Cons.prems obtain a b where
    a: "map_of am (link_attachmentID l) = Some a" and
    b: "map_of om (link_calendarObjectID l) = Some b"
    by (auto simp: rebind_def split: option.splits)
  have rest: "\<forall>l\<in>set links. rebind am om l \<noteq> None" using Cons.prems by simp
  show ?case
    using a b Cons.IH [OF rest]
    by (simp add: bind_def with_txn_def ret_def modify_db_def rebind_def)
qed

lemma makeAttachmentLinks_fails:
  "\<not> (\<forall>l\<in>set links. rebind am om l \<noteq> None) \<Longrightarrow>
   \<exists>msg w1. makeAttachmentLinks (Txn t) links am om w = (Raised (KeyError msg), w1)
     \<and> snapshots w1 = snapshots w \<and> events w1 = events w"
proof (induction links arbitrary: w)
  case Nil
  then show ?case by simp
next
  case (Cons l links)
  show ?case
  proof (cases "rebind am om l")
    case None
    then show ?thesis
      by (auto simp: rebind_def raise_def split: option.splits)
  next
    case (Some l')
    then obtain a b where
      a: "map_of am (link_attachmentID l) = Some a" and
      b: "map_of om (link_calendarObjectID l) = Some b"
      by (auto simp: rebind_def split: option.splits)
    from Some Cons.prems have "\<not> (\<forall>l\<in>set links. rebind am om l \<noteq> None)" by auto
    from Cons.IH [OF this] obtain msg w1 where
      "makeAttachmentLinks (Txn t) links am om
         (modify_db (\<lambda>d. d\<lparr>attachment_links := attachment_links d @
            [\<lparr>link_attachmentID = localResourceID a,
              link_calendarObjectID = localResourceID b\<rparr>]\<rparr>) w) = (Raised (KeyError msg), w1)"
      "snapshots w1 = snapshots w" "events w1 = events w"
      by (fastforce simp: modify_db_def)
    then show ?thesis
      using a b by (simp add: bind_def with_txn_def ret_def)
  qed
qed

text \<open>
  C10. A batch of links passed to \<open>makeAttachmentLinks\<close> in its own transaction
  succeeds exactly when every link's attachment id is in the attachment map and every
  link's calendar object id is in the object map: then all rewritten links are inserted
  and the transaction is committed. If some link has an id missing from either map the
  dictionary lookup raises \<open>KeyError\<close>, the transaction is aborted and logged, the
  \<open>KeyError\<close> is raised at the caller, and the store is as it was before the batch.
\<close>

theorem makeAttachmentLinks_all_or_nothing:
  "((\<forall>l\<in>set links. rebind am om l \<noteq> None) \<longrightarrow>
      fst (call_wrapped ''makeAttachmentLinks''
             (\<lambda>txn. makeAttachmentLinks txn links am om) diruid w) = Returned ()
    \<and> attachment_links (db (snd (call_wrapped ''makeAttachmentLinks''
             (\<lambda>txn. makeAttachmentLinks txn links am om) diruid w)))
        = attachment_links (db w) @ List.map_filter (rebind am om) links
    \<and> events (snd (call_wrapped ''makeAttachmentLinks''
             (\<lambda>txn. makeAttachmentLinks txn links am om) diruid w))
        = events w @ [NewTxn (next_txn w) (label diruid ''makeAttachmentLinks''),
                      Commit (next_txn w)])
   \<and> (\<not> (\<forall>l\<in>set links. rebind am om l \<noteq> None) \<longrightarrow>
      (\<exists>msg. fst (call_wrapped ''makeAttachmentLinks''
                (\<lambda>txn. makeAttachmentLinks txn links am om) diruid w)
              = Raised (KeyError msg)
         \<and> events (snd (call_wrapped ''makeAttachmentLinks''
                (\<lambda>txn. makeAttachmentLinks txn links am om) diruid w))
           = events w @ [NewTxn (next_txn w) (label diruid ''makeAttachmentLinks''),
                         Abort (next_txn w),
                         LogError (label diruid ''makeAttachmentLinks'' @ '' failed: '' @ msg)])
    \<and> db (snd (call_wrapped ''makeAttachmentLinks''
             (\<lambda>txn. makeAttachmentLinks txn links am om) diruid w)) = db w)"
proof (intro conjI impI)
  assume ok: "\<forall>l\<in>set links. rebind am om l \<noteq> None"
  note eq = makeAttachmentLinks_ok [OF ok, of "next_txn w"]
  show "fst (call_wrapped ''makeAttachmentLinks''
             (\<lambda>txn. makeAttachmentLinks txn links am om) diruid w) = Returned ()"
    by (simp add: call_wrapped_eq eq)
  show "attachment_links (db (snd (call_wrapped ''makeAttachmentLinks''
             (\<lambda>txn. makeAttachmentLinks txn links am om) diruid w)))
        = attachment_links (db w) @ List.map_filter (rebind am om) links"
    by (simp add: call_wrapped_eq eq modify_db_def commit_def newTransaction_def)
  show "events (snd (call_wrapped ''makeAttachmentLinks''
             (\<lambda>txn. makeAttachmentLinks txn links am om) diruid w))
        = events w @ [NewTxn (next_txn w) (label diruid ''makeAttachmentLinks''),
                      Commit (next_txn w)]"
    by (simp add: call_wrapped_eq eq modify_db_def commit_def newTransaction_def)
next
  assume bad: "\<not> (\<forall>l\<in>set links. rebind am om l \<noteq> None)"
  from makeAttachmentLinks_fails [OF bad, of "next_txn w"
      "snd (newTransaction (label diruid ''makeAttachmentLinks'') w)"]
  obtain msg w1 where
    r: "makeAttachmentLinks (Txn (next_txn w)) links am om
          (snd (newTransaction (label diruid ''makeAttachmentLinks'') w))
        = (Raised (KeyError msg), w1)"
    and s: "snapshots w1 = snapshots (snd (newTransaction (label diruid ''makeAttachmentLinks'') w))"
    and e: "events w1 = events (snd (newTransaction (label diruid ''makeAttachmentLinks'') w))"
    by blast
  show "\<exists>msg. fst (call_wrapped ''makeAttachmentLinks''
                (\<lambda>txn. makeAttachmentLinks txn links am om) diruid w)
              = Raised (KeyError msg)
         \<and> events (snd (call_wrapped ''makeAttachmentLinks''
                (\<lambda>txn. makeAttachmentLinks txn links am om) diruid w))
           = events w @ [NewTxn (next_txn w) (label diruid ''makeAttachmentLinks''),
                         Abort (next_txn w),
                         LogError (label diruid ''makeAttachmentLinks'' @ '' failed: '' @ msg)]"
    using r e by (simp add: call_wrapped_eq log_error_def abort_def newTransaction_def)
  show "db (snd (call_wrapped ''makeAttachmentLinks''
             (\<lambda>txn. makeAttachmentLinks txn links am om) diruid w)) = db w"
    using r s by (simp add: call_wrapped_eq log_error_def abort_def newTransaction_def)
qed

theorem makeAttachmentLinks_all_or_nothing_witness:
  "rebind (fst sample_maps) (snd sample_maps)
       \<lparr>link_attachmentID = 7, link_calendarObjectID = 31\<rparr>
     = Some \<lparr>link_attachmentID = 200, link_calendarObjectID = 101\<rparr>
   \<and> rebind (fst sample_maps) (snd sample_maps)
       \<lparr>link_attachmentID = 7, link_calendarObjectID = 32\<rparr> = None
   \<and> attachment_links (db (snd (call_wrapped ''makeAttachmentLinks''
        (\<lambda>txn. makeAttachmentLinks txn [\<lparr>link_attachmentID = 7, link_calendarObjectID = 31\<rparr>]
                  (fst sample_maps) (snd sample_maps)) ''user42'' world_user42)))
       = [\<lparr>link_attachmentID = 200, link_calendarObjectID = 101\<rparr>]
   \<and> db (snd (call_wrapped ''makeAttachmentLinks''
        (\<lambda>txn. makeAttachmentLinks txn [\<lparr>link_attachmentID = 7, link_calendarObjectID = 31\<rparr>,
                     \<lparr>link_attachmentID = 7, link_calendarObjectID = 32\<rparr>]
                  (fst sample_maps) (snd sample_maps)) ''user42'' world_user42))
       = db world_user42"
  using makeAttachmentLinks_all_or_nothing
     [of "[\<lparr>link_attachmentID = 7, link_calendarObjectID = 31\<rparr>]"
         "fst sample_maps" "snd sample_maps" "''user42''" world_user42]
    makeAttachmentLinks_all_or_nothing
     [of "[\<lparr>link_attachmentID = 7, link_calendarObjectID = 31\<rparr>,
           \<lparr>link_attachmentID = 7, link_calendarObjectID = 32\<rparr>]"
         "fst sample_maps" "snd sample_maps" "''user42''" world_user42]
  by (simp add: sample_maps_def rebind_def world_user42_def empty_db_def)

subsection \<open>The phases of the migration\<close>

lemma migrateHere_raises:
  "fst (migrateHere sync_m disableRemoteHome finalSync_m enableLocalHome removeRemoteHome w)
     \<noteq> Returned ()"
  by (simp add: migrateHere_def disableRemoteHome_def bind_def raise_def
      split: prod.splits outcome.splits)

lemma mark_raise: "mark name (raise e) w = (Raised e, log_event (PhaseBegin name) w)"
  by (simp add: mark_def raise_def)

lemma sync_env_home_first:
  "sync env_home ''user42'' (log_event (PhaseBegin ''sync'') world0) =
     (Returned (),
      \<lparr>db = \<lparr>homes = [(''Migrating-user42'',
                         \<lparr>home_id = 1, home_metadata = [], home_quotaUsed = 0\<rparr>)],
              calendars = [], attachments = [], calendar_migration = [],
              object_migration = [], attachment_migration = [],
              attachment_links = [], next_id = 2\<rparr>,
       snapshots = [],
       events =
         [PhaseBegin ''sync'',
          NewTxn 0 ''Cross-pod Migration Sync for user42: prepareCalendarHome'', Commit 0,
          NewTxn 1 ''Cross-pod Migration Sync for user42: getCalendarSyncList'', Commit 1,
          NewTxn 2 ''Cross-pod Migration Sync for user42: getSyncState'', Commit 2,
          NewTxn 3 ''Cross-pod Migration Sync for user42: purgeLocal'', Commit 3,
          NewTxn 4 ''Cross-pod Migration Sync for user42: syncCalendarHomeMetaData'', Commit 4,
          NewTxn 5 ''Cross-pod Migration Sync for user42: syncAttachmentTable'', Commit 5],
       next_txn = 6,
       self_record = Some user42,
       self_homeId = Some 1\<rparr>)"
  by (simp add: sync_def loadRecord_def prepareCalendarHome_def syncCalendarList_def
      getCalendarSyncList_def getSyncState_def purgeLocal_def syncCalendarHomeMetaData_def
      syncAttachments_def syncAttachmentTable_def remoteHome_def get_homeId_def
      calendarHomeWithUID_def createHome_def home_copyMetadata_def getAllAttachments_def
      migratingUid_def dict_of_def modify_db_def log_event_def
      call_wrapped_eq with_txn_def bind_def ret_def raise_def newTransaction_def commit_def
      label_def env_home_def env_null_def world0_def empty_db_def user42_def Let_def)

lemma sync_env_home_second:
  "sync env_home ''user42''
     (log_event (PhaseBegin ''sync'') (log_event (PhaseEnd ''sync'')
        (snd (sync env_home ''user42'' (log_event (PhaseBegin ''sync'') world0))))) =
     (Returned (),
      \<lparr>db = \<lparr>homes = [(''Migrating-user42'',
                         \<lparr>home_id = 1, home_metadata = [], home_quotaUsed = 0\<rparr>)],
              calendars = [], attachments = [], calendar_migration = [],
              object_migration = [], attachment_migration = [],
              attachment_links = [], next_id = 2\<rparr>,
       snapshots = [],
       events =
         [PhaseBegin ''sync'',
          NewTxn 0 ''Cross-pod Migration Sync for user42: prepareCalendarHome'', Commit 0,
          NewTxn 1 ''Cross-pod Migration Sync for user42: getCalendarSyncList'', Commit 1,
          NewTxn 2 ''Cross-pod Migration Sync for user42: getSyncState'', Commit 2,
          NewTxn 3 ''Cross-pod Migration Sync for user42: purgeLocal'', Commit 3,
          NewTxn 4 ''Cross-pod Migration Sync for user42: syncCalendarHomeMetaData'', Commit 4,
          NewTxn 5 ''Cross-pod Migration Sync for user42: syncAttachmentTable'', Commit 5,
          PhaseEnd ''sync'', PhaseBegin ''sync'',
          NewTxn 6 ''Cross-pod Migration Sync for user42: prepareCalendarHome'', Commit 6,
          NewTxn 7 ''Cross-pod Migration Sync for user42: getCalendarSyncList'', Commit 7,
          NewTxn 8 ''Cross-pod Migration Sync for user42: getSyncState'', Commit 8,
          NewTxn 9 ''Cross-pod Migration Sync for user42: purgeLocal'', Commit 9,
          NewTxn 10 ''Cross-pod Migration Sync for user42: syncCalendarHomeMetaData'',
          Commit 10,
          NewTxn 11 ''Cross-pod Migration Sync for user42: syncAttachmentTable'', Commit 11],
       next_txn = 12,
       self_record = Some user42,
       self_homeId = Some 1\<rparr>)"
  unfolding sync_env_home_first snd_conv
  by (simp add: sync_def loadRecord_def prepareCalendarHome_def syncCalendarList_def
      getCalendarSyncList_def getSyncState_def purgeLocal_def syncCalendarHomeMetaData_def
      syncAttachments_def syncAttachmentTable_def remoteHome_def get_homeId_def
      calendarHomeWithUID_def createHome_def home_copyMetadata_def getAllAttachments_def
      migratingUid_def dict_of_def modify_db_def log_event_def
      call_wrapped_eq with_txn_def bind_def ret_def raise_def newTransaction_def commit_def
      label_def env_home_def env_null_def user42_def Let_def)

text \<open>
  C6, at an input where it fails, and why it fails at every input. \<open>migrateHere\<close> never
  returns: the call of \<open>disableRemoteHome\<close> raises \<open>TypeError\<close>, so whenever the two
  first calls of \<open>sync\<close> return, the migration stops at its third step. For \<open>user42\<close>,
  whose remote home is empty, the markers of the trace end with the start of
  \<open>disableRemoteHome\<close>: the final sync, \<open>linkAttachments\<close>, \<open>delegateReconcile\<close>,
  \<open>enableLocalHome\<close> and \<open>removeRemoteHome\<close> are never started.
\<close>

theorem migrateHere_stops_at_disableRemoteHome:
  "fst (migrateHere sync_m disableRemoteHome finalSync_m enableLocalHome removeRemoteHome w)
     \<noteq> Returned ()
   \<and> fst (migrateHere_marked env_home ''user42'' (ret ()) world0)
       = Raised (TypeError
           ''inlineCallbacks requires disableRemoteHome to produce a generator; instead got None'')
   \<and> phases (events (snd (migrateHere_marked env_home ''user42'' (ret ()) world0)))
       = [PhaseBegin ''sync'', PhaseEnd ''sync'', PhaseBegin ''sync'', PhaseEnd ''sync'',
          PhaseBegin ''disableRemoteHome'']"
proof (intro conjI)
  show "fst (migrateHere sync_m disableRemoteHome finalSync_m enableLocalHome
               removeRemoteHome w) \<noteq> Returned ()"
    by (rule migrateHere_raises)
  define w1 where
    "w1 = snd (sync env_home ''user42'' (log_event (PhaseBegin ''sync'') world0))"
  define w2 where
    "w2 = snd (sync env_home ''user42''
                 (log_event (PhaseBegin ''sync'') (log_event (PhaseEnd ''sync'') w1)))"
  have f1: "sync env_home ''user42'' (log_event (PhaseBegin ''sync'') world0)
              = (Returned (), w1)"
    unfolding w1_def sync_env_home_first by simp
  have f2: "sync env_home ''user42''
              (log_event (PhaseBegin ''sync'') (log_event (PhaseEnd ''sync'') w1))
              = (Returned (), w2)"
    unfolding w2_def w1_def sync_env_home_second by simp
  have run: "migrateHere_marked env_home ''user42'' (ret ()) world0 =
      (Raised (not_a_generator ''disableRemoteHome''),
       log_event (PhaseBegin ''disableRemoteHome'') (log_event (PhaseEnd ''sync'') w2))"
    unfolding migrateHere_marked_def migrateHere_def disableRemoteHome_def mark_raise
    by (simp add: bind_def mark_def f1 f2)
  show "fst (migrateHere_marked env_home ''user42'' (ret ()) world0)
       = Raised (TypeError
           ''inlineCallbacks requires disableRemoteHome to produce a generator; instead got None'')"
    unfolding run by (simp add: not_a_generator_def)
  show "phases (events (snd (migrateHere_marked env_home ''user42'' (ret ()) world0)))
       = [PhaseBegin ''sync'', PhaseEnd ''sync'', PhaseBegin ''sync'', PhaseEnd ''sync'',
          PhaseBegin ''disableRemoteHome'']"
    unfolding run w2_def w1_def sync_env_home_second snd_conv
    by (simp add: phases_def log_event_def)
qed

subsection \<open>Batches\<close>

lemma windows_concat: "0 < n \<Longrightarrow> concat (windows n xs) = xs"
  by (induction n xs rule: windows.induct) simp

lemma windows_bound: "b \<in> set (windows n xs) \<Longrightarrow> b \<noteq> [] \<and> length b \<le> n"
proof (induction n xs rule: windows.induct)
  case (1 n xs)
  show ?case
  proof (cases "xs = [] \<or> n = 0")
    case True
    with "1.prems" show ?thesis by simp
  next
    case False
    with "1.prems" have "b = take n xs \<or> b \<in> set (windows n (drop n xs))" by simp
    then show ?thesis
    proof
      assume "b = take n xs"
      with False show ?thesis by simp
    next
      assume "b \<in> set (windows n (drop n xs))"
      with "1.IH" False show ?thesis by blast
    qed
  qed
qed

lemma in_batches_windows:
  "in_batches batch xs w = run_windows batch (windows BATCH_SIZE xs) w"
proof (induction batch xs w rule: in_batches.induct)
  case (1 batch remaining w)
  show ?case
  proof (cases "remaining = []")
    case True
    then show ?thesis by (simp add: ret_def)
  next
    case False
    obtain res w1 where b: "batch (take BATCH_SIZE remaining) w = (res, w1)"
      by (cases "batch (take BATCH_SIZE remaining) w")
    have ws: "windows BATCH_SIZE remaining
               = take BATCH_SIZE remaining # windows BATCH_SIZE (drop BATCH_SIZE remaining)"
      using False by (simp add: BATCH_SIZE_def)
    show ?thesis
    proof (cases res)
      case (Returned x)
      with "1.IH" [OF False b [symmetric] Returned] b False ws show ?thesis
        by (simp add: bind_def del: windows.simps)
    next
      case (Raised e)
      with b False ws show ?thesis by (simp add: bind_def del: windows.simps)
    qed
  qed
qed

lemma object_writes_in_append:
  "object_writes_in t (a @ b) = object_writes_in t a + object_writes_in t b"
  by (simp add: object_writes_in_def)

lemma object_writes_in_Nil: "object_writes_in t [] = 0"
  by (simp add: object_writes_in_def)

lemma purge_objects_events:
  "events (purge_objects t c objs w) = events w @ map (\<lambda>p. ObjectPurge t c (fst p)) objs"
  by (induction objs arbitrary: w) (simp_all add: log_event_def modify_db_def)

lemma purge_objects_next_txn: "next_txn (purge_objects t c objs w) = next_txn w"
  by (induction objs arbitrary: w) (simp_all add: log_event_def modify_db_def)

lemma purge_objects_snapshots: "snapshots (purge_objects t c objs w) = snapshots w"
  by (induction objs arbitrary: w) (simp_all add: log_event_def modify_db_def)

lemma object_writes_in_purges:
  "object_writes_in t' (map (\<lambda>p. ObjectPurge t c (fst p)) objs)
     = (if t' = t then length objs else 0)"
  by (induction objs) (simp_all add: object_writes_in_def)

lemma length_objectResourcesWithNames:
  "length (objectResourcesWithNames c names d) \<le> length names"
proof -
  have "length (objectResourcesWithNames c names d) \<le> length (remdups names)"
    by (simp add: objectResourcesWithNames_def map_filter_def)
  also have "\<dots> \<le> length names" by (rule length_remdups_leq)
  finally show ?thesis .
qed

lemma bounded_op_mono: "bounded_op operation n \<Longrightarrow> n \<le> m \<Longrightarrow> bounded_op operation m"
  unfolding bounded_op_def
proof (intro allI conjI)
  fix t w
  assume a: "\<forall>t w. (\<exists>evs. events (snd (operation (Txn t) w)) = events w @ evs
                \<and> (\<forall>t'. object_writes_in t' evs \<le> (if t' = t then n else 0)))
           \<and> next_txn (snd (operation (Txn t) w)) = next_txn w"
    and nm: "n \<le> m"
  from a show "next_txn (snd (operation (Txn t) w)) = next_txn w" by blast
  from a obtain evs where
    e: "events (snd (operation (Txn t) w)) = events w @ evs"
    and b: "\<forall>t'. object_writes_in t' evs \<le> (if t' = t then n else 0)"
    by blast
  have "\<forall>t'. object_writes_in t' evs \<le> (if t' = t then m else 0)"
  proof
    fix t'
    from b have "object_writes_in t' evs \<le> (if t' = t then n else 0)" ..
    with nm show "object_writes_in t' evs \<le> (if t' = t then m else 0)"
      by (simp split: if_splits)
  qed
  with e show "\<exists>evs. events (snd (operation (Txn t) w)) = events w @ evs
                \<and> (\<forall>t'. object_writes_in t' evs \<le> (if t' = t then m else 0))"
    by blast
qed

lemma bounded_purgeBatch:
  "bounded_op (\<lambda>txn. purgeBatch diruid txn localID names) (length names)"
  unfolding bounded_op_def
proof (intro allI conjI)
  fix t w
  show "next_txn (snd (purgeBatch diruid (Txn t) localID names w)) = next_txn w"
    by (simp add: purgeBatch_def with_txn_def raise_def ret_def purge_objects_next_txn
        split: option.splits)
  show "\<exists>evs. events (snd (purgeBatch diruid (Txn t) localID names w)) = events w @ evs
           \<and> (\<forall>t'. object_writes_in t' evs \<le> (if t' = t then length names else 0))"
  proof (cases "calendarHomeWithUID (migratingUid diruid) (db w)")
    case None
    then have "events (snd (purgeBatch diruid (Txn t) localID names w)) = events w @ []"
      by (simp add: purgeBatch_def with_txn_def raise_def)
    then show ?thesis by (metis object_writes_in_Nil le0)
  next
    case (Some lh)
    show ?thesis
    proof (cases "childWithID lh localID (db w)")
      case None
      with Some have "events (snd (purgeBatch diruid (Txn t) localID names w)) = events w @ []"
        by (simp add: purgeBatch_def with_txn_def raise_def)
      then show ?thesis by (metis object_writes_in_Nil le0)
    next
      case c: (Some c)
      let ?objs = "objectResourcesWithNames c names (db w)"
      have e: "events (snd (purgeBatch diruid (Txn t) localID names w))
                = events w @ map (\<lambda>p. ObjectPurge t c (fst p)) ?objs"
        using Some c by (simp add: purgeBatch_def with_txn_def ret_def purge_objects_events)
      have "\<forall>t'. object_writes_in t' (map (\<lambda>p. ObjectPurge t c (fst p)) ?objs)
                 \<le> (if t' = t then length names else 0)"
        by (simp add: object_writes_in_purges length_objectResourcesWithNames)
      with e show ?thesis by blast
    qed
  qed
qed

lemma call_wrapped_bounded:
  assumes "bounded_op operation n"
  shows "\<exists>evs. events (snd (call_wrapped name operation diruid w)) = events w @ evs
           \<and> (\<forall>t'. object_writes_in t' evs \<le> (if t' = next_txn w then n else 0))
           \<and> next_txn (snd (call_wrapped name operation diruid w)) = Suc (next_txn w)
           \<and> (\<forall>e. fst (call_wrapped name operation diruid w) = Raised e \<longrightarrow>
                 (\<exists>pre. evs = pre @ [Abort (next_txn w),
                                      LogError (label diruid name @ '' failed: '' @ str_exn e)]))"
proof -
  let ?t = "next_txn w"
  let ?w0 = "snd (newTransaction (label diruid name) w)"
  obtain res w1 where op: "operation (Txn ?t) ?w0 = (res, w1)"
    by (cases "operation (Txn ?t) ?w0")
  from assms obtain evs where
    evs: "events w1 = events ?w0 @ evs"
      "\<forall>t'. object_writes_in t' evs \<le> (if t' = ?t then n else 0)"
    and nt: "next_txn w1 = next_txn ?w0"
    using op unfolding bounded_op_def by (metis snd_conv)
  have e0: "events ?w0 = events w @ [NewTxn ?t (label diruid name)]"
    and n0: "next_txn ?w0 = Suc ?t"
    by (simp_all add: newTransaction_def)
  show ?thesis
  proof (cases res)
    case (Returned r)
    let ?evs = "[NewTxn ?t (label diruid name)] @ evs @ [Commit ?t]"
    have a: "\<forall>t'. object_writes_in t' ?evs \<le> (if t' = ?t then n else 0)"
      using evs(2) by (simp add: object_writes_in_def)
    have b: "events (snd (call_wrapped name operation diruid w)) = events w @ ?evs"
      using op Returned evs(1) e0 by (simp add: call_wrapped_eq commit_def)
    have c: "next_txn (snd (call_wrapped name operation diruid w)) = Suc ?t"
      using op Returned nt n0 by (simp add: call_wrapped_eq commit_def)
    have d: "\<forall>e. fst (call_wrapped name operation diruid w) = Raised e \<longrightarrow>
                 (\<exists>pre. ?evs = pre @ [Abort ?t,
                                      LogError (label diruid name @ '' failed: '' @ str_exn e)])"
      using op Returned by (simp add: call_wrapped_eq)
    from a b c d show ?thesis by blast
  next
    case (Raised ex)
    let ?tail = "[Abort ?t, LogError (label diruid name @ '' failed: '' @ str_exn ex)]"
    let ?evs = "[NewTxn ?t (label diruid name)] @ evs @ ?tail"
    have a: "\<forall>t'. object_writes_in t' ?evs \<le> (if t' = ?t then n else 0)"
      using evs(2) by (simp add: object_writes_in_def)
    have b: "events (snd (call_wrapped name operation diruid w)) = events w @ ?evs"
      using op Raised evs(1) e0 by (simp add: call_wrapped_eq abort_def log_error_def)
    have c: "next_txn (snd (call_wrapped name operation diruid w)) = Suc ?t"
      using op Raised nt n0 by (simp add: call_wrapped_eq abort_def log_error_def)
    have f: "fst (call_wrapped name operation diruid w) = Raised ex"
      using op Raised by (simp add: call_wrapped_eq)
    have "?evs = ([NewTxn ?t (label diruid name)] @ evs) @ ?tail" by simp
    then have d: "\<forall>e. fst (call_wrapped name operation diruid w) = Raised e \<longrightarrow>
                 (\<exists>pre. ?evs = pre @ [Abort ?t,
                                      LogError (label diruid name @ '' failed: '' @ str_exn e)])"
      unfolding f by blast
    from a b c d show ?thesis by blast
  qed
qed

lemma run_windows_trace:
  assumes "\<forall>b\<in>set bs. bounded_op (operation b) m"
  shows "\<exists>evs. events (snd (run_windows (\<lambda>b. call_wrapped name (operation b) diruid) bs w))
                  = events w @ evs
             \<and> (\<forall>t. object_writes_in t evs
                     \<le> (if next_txn w \<le> t \<and> t < next_txn w + length bs then m else 0))
             \<and> (fst (run_windows (\<lambda>b. call_wrapped name (operation b) diruid) bs w)
                   = Returned () \<longrightarrow>
                 next_txn (snd (run_windows (\<lambda>b. call_wrapped name (operation b) diruid) bs w))
                   = next_txn w + length bs)
             \<and> (\<forall>e. fst (run_windows (\<lambda>b. call_wrapped name (operation b) diruid) bs w)
                        = Raised e \<longrightarrow>
                   (\<exists>k<length bs.
                      next_txn (snd (run_windows (\<lambda>b. call_wrapped name (operation b) diruid)
                                       bs w))
                        = next_txn w + Suc k
                      \<and> (\<exists>pre. evs = pre @ [Abort (next_txn w + k),
                             LogError (label diruid name @ '' failed: '' @ str_exn e)])))"
  using assms
proof (induction bs arbitrary: w)
  case Nil
  have "events w = events w @ [] \<and> (\<forall>t. object_writes_in t [] \<le> 0)"
    by (simp add: object_writes_in_Nil)
  then show ?case by (auto simp: ret_def)
next
  case (Cons b bs)
  let ?call = "call_wrapped name (operation b) diruid"
  let ?rest = "run_windows (\<lambda>b. call_wrapped name (operation b) diruid) bs"
  let ?all = "run_windows (\<lambda>b. call_wrapped name (operation b) diruid) (b # bs)"
  from Cons.prems have bo: "bounded_op (operation b) m" by simp
  from call_wrapped_bounded [OF bo, of name diruid w] obtain evs1 where
    c2: "events (snd (?call w)) = events w @ evs1"
    and c3: "\<forall>t'. object_writes_in t' evs1 \<le> (if t' = next_txn w then m else 0)"
    and c4: "next_txn (snd (?call w)) = Suc (next_txn w)"
    and c5: "\<forall>e. fst (?call w) = Raised e \<longrightarrow>
                 (\<exists>pre. evs1 = pre @ [Abort (next_txn w),
                                       LogError (label diruid name @ '' failed: '' @ str_exn e)])"
    by blast
  obtain res w1 where w1: "?call w = (res, w1)" by (cases "?call w")
  have nw1: "next_txn w1 = Suc (next_txn w)" using c4 w1 by simp
  have ew1: "events w1 = events w @ evs1" using c2 w1 by simp
  show ?case
  proof (cases res)
    case (Raised ex)
    have run: "?all w = (Raised ex, w1)" using w1 Raised by (simp add: bind_def)
    from c5 w1 Raised obtain pre where
      pre: "evs1 = pre @ [Abort (next_txn w),
                          LogError (label diruid name @ '' failed: '' @ str_exn ex)]"
      by auto
    have bound: "\<forall>t. object_writes_in t evs1
                 \<le> (if next_txn w \<le> t \<and> t < next_txn w + length (b # bs) then m else 0)"
    proof
      fix t
      from c3 have "object_writes_in t evs1 \<le> (if t = next_txn w then m else 0)" ..
      then show "object_writes_in t evs1
                 \<le> (if next_txn w \<le> t \<and> t < next_txn w + length (b # bs) then m else 0)"
        by (simp split: if_splits)
    qed
    have stop: "\<forall>e. fst (?all w) = Raised e \<longrightarrow>
                   (\<exists>k<length (b # bs).
                      next_txn (snd (?all w)) = next_txn w + Suc k
                      \<and> (\<exists>pre. evs1 = pre @ [Abort (next_txn w + k),
                             LogError (label diruid name @ '' failed: '' @ str_exn e)]))"
    proof (intro allI impI)
      fix e assume "fst (?all w) = Raised e"
      with run have "e = ex" by simp
      with pre nw1 run
      have "0 < length (b # bs) \<and> next_txn (snd (?all w)) = next_txn w + Suc 0
                 \<and> (\<exists>pre. evs1 = pre @ [Abort (next_txn w + 0),
                             LogError (label diruid name @ '' failed: '' @ str_exn e)])"
        by simp
      then show "\<exists>k<length (b # bs).
                      next_txn (snd (?all w)) = next_txn w + Suc k
                      \<and> (\<exists>pre. evs1 = pre @ [Abort (next_txn w + k),
                             LogError (label diruid name @ '' failed: '' @ str_exn e)])"
        by blast
    qed
    have ev: "events (snd (?all w)) = events w @ evs1" using run ew1 by simp
    have ret: "fst (?all w) = Returned () \<longrightarrow>
                 next_txn (snd (?all w)) = next_txn w + length (b # bs)"
      using run by simp
    from ev bound ret stop show ?thesis by blast
  next
    case (Returned r)
    have run: "?all w = ?rest w1" using w1 Returned by (simp add: bind_def)
    from Cons.prems have "\<forall>b\<in>set bs. bounded_op (operation b) m" by simp
    from Cons.IH [OF this, of w1] obtain evs2 where
      r2: "events (snd (?rest w1)) = events w1 @ evs2"
      and r3: "\<forall>t. object_writes_in t evs2
               \<le> (if next_txn w1 \<le> t \<and> t < next_txn w1 + length bs then m else 0)"
      and r4: "fst (?rest w1) = Returned () \<longrightarrow>
                 next_txn (snd (?rest w1)) = next_txn w1 + length bs"
      and r5: "\<forall>e. fst (?rest w1) = Raised e \<longrightarrow>
                   (\<exists>k<length bs. next_txn (snd (?rest w1)) = next_txn w1 + Suc k
                      \<and> (\<exists>pre. evs2 = pre @ [Abort (next_txn w1 + k),
                             LogError (label diruid name @ '' failed: '' @ str_exn e)]))"
      by blast
    have bound: "\<forall>t. object_writes_in t (evs1 @ evs2)
                 \<le> (if next_txn w \<le> t \<and> t < next_txn w + length (b # bs) then m else 0)"
    proof
      fix t
      show "object_writes_in t (evs1 @ evs2)
            \<le> (if next_txn w \<le> t \<and> t < next_txn w + length (b # bs) then m else 0)"
      proof (cases "t = next_txn w")
        case True
        from r3 have "object_writes_in t evs2
               \<le> (if next_txn w1 \<le> t \<and> t < next_txn w1 + length bs then m else 0)" ..
        with nw1 True have z: "object_writes_in t evs2 = 0" by simp
        from c3 have "object_writes_in t evs1 \<le> (if t = next_txn w then m else 0)" ..
        with z True show ?thesis by (simp add: object_writes_in_append)
      next
        case False
        from c3 have "object_writes_in t evs1 \<le> (if t = next_txn w then m else 0)" ..
        with False have z: "object_writes_in t evs1 = 0" by simp
        from r3 have "object_writes_in t evs2
               \<le> (if next_txn w1 \<le> t \<and> t < next_txn w1 + length bs then m else 0)" ..
        with nw1 False z show ?thesis
          by (simp add: object_writes_in_append split: if_splits)
      qed
    qed
    have e: "events (snd (?all w)) = events w @ (evs1 @ evs2)"
      unfolding run using r2 ew1 by simp
    have n: "fst (?all w) = Returned () \<longrightarrow>
               next_txn (snd (?all w)) = next_txn w + length (b # bs)"
      unfolding run using r4 nw1 by simp
    have stop: "\<forall>e. fst (?all w) = Raised e \<longrightarrow>
                   (\<exists>k<length (b # bs).
                      next_txn (snd (?all w)) = next_txn w + Suc k
                      \<and> (\<exists>pre. evs1 @ evs2 = pre @ [Abort (next_txn w + k),
                             LogError (label diruid name @ '' failed: '' @ str_exn e)]))"
    proof (intro allI impI)
      fix e assume "fst (?all w) = Raised e"
      then have "fst (?rest w1) = Raised e" unfolding run .
      with r5 obtain k pre where
        k: "k < length bs" "next_txn (snd (?rest w1)) = next_txn w1 + Suc k"
        and p: "evs2 = pre @ [Abort (next_txn w1 + k),
                             LogError (label diruid name @ '' failed: '' @ str_exn e)]"
        by blast
      have "Suc k < length (b # bs)" using k(1) by simp
      moreover have "next_txn (snd (?all w)) = next_txn w + Suc (Suc k)"
        unfolding run using k(2) nw1 by simp
      moreover have "evs1 @ evs2 = (evs1 @ pre) @ [Abort (next_txn w + Suc k),
                             LogError (label diruid name @ '' failed: '' @ str_exn e)]"
        using p nw1 by simp
      ultimately show "\<exists>k<length (b # bs).
                      next_txn (snd (?all w)) = next_txn w + Suc k
                      \<and> (\<exists>pre. evs1 @ evs2 = pre @ [Abort (next_txn w + k),
                             LogError (label diruid name @ '' failed: '' @ str_exn e)])"
        by blast
    qed
    from e bound n stop show ?thesis by blast
  qed
qed

lemma snd_get_homeId: "snd (get_homeId w) = w"
  by (simp add: get_homeId_def raise_def ret_def split: option.splits)

lemma foldl_update_keys:
  "fst ` set (foldl (\<lambda>d p. AList.update (fst p) (snd p) d) acc ps) = fst ` set acc \<union> fst ` set ps"
  by (induction ps arbitrary: acc) (auto simp: dom_update)

lemma foldl_update_distinct:
  "distinct (map fst acc) \<Longrightarrow>
   distinct (map fst (foldl (\<lambda>d p. AList.update (fst p) (snd p) d) acc ps))"
  by (induction ps arbitrary: acc) (simp_all add: distinct_update)

lemma dict_of_keys: "fst ` set (dict_of ps) = fst ` set ps"
  by (simp add: dict_of_def foldl_update_keys)

lemma dict_of_distinct: "distinct (map fst (dict_of ps))"
  by (simp add: dict_of_def foldl_update_distinct)

lemma keys_delete: "map fst (AList.delete k al) = filter (\<lambda>x. x \<noteq> k) (map fst al)"
  by (induction al) auto

lemma keys_absent: "map_of al k = None \<Longrightarrow> map fst al = filter (\<lambda>x. x \<noteq> k) (map fst al)"
proof -
  assume "map_of al k = None"
  then have "k \<notin> set (map fst al)" by (simp add: map_of_eq_None_iff)
  then show ?thesis by (induction al) auto
qed

lemma filter_keys_step:
  "filter (\<lambda>k. k \<notin> fst ` set R) (filter (\<lambda>x. x \<noteq> fst p) xs)
     = filter (\<lambda>k. k \<notin> fst ` set (p # R)) xs"
  by (induction xs) auto

lemma update_objects_trace:
  "\<exists>evs. events (snd (update_objects t c R L w)) = events w @ evs
      \<and> (\<forall>t'. object_writes_in t' evs \<le> (if t' = t then length R else 0))
      \<and> next_txn (snd (update_objects t c R L w)) = next_txn w
      \<and> (\<forall>left. fst (update_objects t c R L w) = Returned left \<longrightarrow>
            map fst left = filter (\<lambda>k. k \<notin> fst ` set R) (map fst L))"
proof (induction R arbitrary: L w)
  case Nil
  have "events w = events w @ [] \<and> (\<forall>t'. object_writes_in t' [] \<le> (if t' = t then 0 else 0))"
    by (simp add: object_writes_in_Nil)
  then show ?case by (auto simp: ret_def)
next
  case (Cons p R)
  show ?case
  proof (cases "map_of L (fst p)")
    case (Some lobj)
    let ?w1 = "log_event (ObjectCopyMetadata t c (fst p))
              (modify_db (object_copyMetadata c (fst p) (snd p))
                (log_event (ObjectSet t c (fst p))
                  (modify_db (setComponentInternal c (fst p) (robj_component (snd p))
                                (robj_md5 (snd p))) w)))"
    let ?L1 = "AList.delete (fst p) L"
    have step: "update_objects t c (p # R) L w = update_objects t c R ?L1 ?w1"
      using Some by simp
    have e1: "events ?w1 = events w @ [ObjectSet t c (fst p), ObjectCopyMetadata t c (fst p)]"
      and n1: "next_txn ?w1 = next_txn w"
      by (simp_all add: log_event_def modify_db_def)
    from Cons.IH [of ?L1 ?w1] obtain evs where
      i1: "events (snd (update_objects t c R ?L1 ?w1)) = events ?w1 @ evs"
      and i2: "\<forall>t'. object_writes_in t' evs \<le> (if t' = t then length R else 0)"
      and i3: "next_txn (snd (update_objects t c R ?L1 ?w1)) = next_txn ?w1"
      and i4: "\<forall>left. fst (update_objects t c R ?L1 ?w1) = Returned left \<longrightarrow>
            map fst left = filter (\<lambda>k. k \<notin> fst ` set R) (map fst ?L1)"
      by blast
    let ?evs = "[ObjectSet t c (fst p), ObjectCopyMetadata t c (fst p)] @ evs"
    have a: "events (snd (update_objects t c (p # R) L w)) = events w @ ?evs"
      using step i1 e1 by simp
    have b: "\<forall>t'. object_writes_in t' ?evs \<le> (if t' = t then length (p # R) else 0)"
    proof
      fix t'
      from i2 have "object_writes_in t' evs \<le> (if t' = t then length R else 0)" ..
      then show "object_writes_in t' ?evs \<le> (if t' = t then length (p # R) else 0)"
        by (simp add: object_writes_in_def split: if_splits)
    qed
    have cc: "next_txn (snd (update_objects t c (p # R) L w)) = next_txn w"
      using step i3 n1 by simp
    have d: "\<forall>left. fst (update_objects t c (p # R) L w) = Returned left \<longrightarrow>
            map fst left = filter (\<lambda>k. k \<notin> fst ` set (p # R)) (map fst L)"
    proof (intro allI impI)
      fix left
      assume "fst (update_objects t c (p # R) L w) = Returned left"
      with step i4 have "map fst left = filter (\<lambda>k. k \<notin> fst ` set R) (map fst ?L1)" by simp
      also have "\<dots> = filter (\<lambda>k. k \<notin> fst ` set (p # R)) (map fst L)"
        by (simp only: keys_delete filter_keys_step)
      finally show "map fst left = filter (\<lambda>k. k \<notin> fst ` set (p # R)) (map fst L)" .
    qed
    from a b cc d show ?thesis by blast
  next
    case None
    obtain oid d where cr: "createCalendarObjectWithNameInternal c (fst p)
                           (robj_component (snd p)) (robj_md5 (snd p)) (db w) = (oid, d)"
      by (cases "createCalendarObjectWithNameInternal c (fst p)
                           (robj_component (snd p)) (robj_md5 (snd p)) (db w)")
    let ?w1 = "log_event (ObjectCreate t c (fst p)) (w\<lparr>db := d\<rparr>)"
    have e1: "events ?w1 = events w @ [ObjectCreate t c (fst p)]"
      and n1: "next_txn ?w1 = next_txn w"
      by (simp_all add: log_event_def)
    obtain hres where gh: "get_homeId ?w1 = (hres, ?w1)"
      using snd_get_homeId [of ?w1] by (cases "get_homeId ?w1") simp
    show ?thesis
    proof (cases hres)
      case (Raised e)
      have r: "update_objects t c (p # R) L w = (Raised e, ?w1)"
        using None cr gh Raised by simp
      have "\<forall>t'. object_writes_in t' [ObjectCreate t c (fst p)]
                \<le> (if t' = t then length (p # R) else 0)"
        by (simp add: object_writes_in_def)
      with r e1 n1 show ?thesis by auto
    next
      case (Returned h)
      let ?w2 = "log_event (ObjectCopyMetadata t c (fst p))
                     (modify_db (object_copyMetadata c (fst p) (snd p))
                       (modify_db (\<lambda>d. d\<lparr>object_migration := object_migration d @
                          [\<lparr>calendarHomeResourceID = h, remoteResourceID = robj_id (snd p),
                            localResourceID = oid\<rparr>]\<rparr>) ?w1))"
      have step: "update_objects t c (p # R) L w = update_objects t c R L ?w2"
        using None cr gh Returned by simp
      have e2: "events ?w2 = events w @ [ObjectCreate t c (fst p), ObjectCopyMetadata t c (fst p)]"
        and n2: "next_txn ?w2 = next_txn w"
        by (simp_all add: log_event_def modify_db_def)
      from Cons.IH [of L ?w2] obtain evs where
        i1: "events (snd (update_objects t c R L ?w2)) = events ?w2 @ evs"
        and i2: "\<forall>t'. object_writes_in t' evs \<le> (if t' = t then length R else 0)"
        and i3: "next_txn (snd (update_objects t c R L ?w2)) = next_txn ?w2"
        and i4: "\<forall>left. fst (update_objects t c R L ?w2) = Returned left \<longrightarrow>
              map fst left = filter (\<lambda>k. k \<notin> fst ` set R) (map fst L)"
        by blast
      let ?evs = "[ObjectCreate t c (fst p), ObjectCopyMetadata t c (fst p)] @ evs"
      have a: "events (snd (update_objects t c (p # R) L w)) = events w @ ?evs"
        using step i1 e2 by simp
      have b: "\<forall>t'. object_writes_in t' ?evs \<le> (if t' = t then length (p # R) else 0)"
      proof
        fix t'
        from i2 have "object_writes_in t' evs \<le> (if t' = t then length R else 0)" ..
        then show "object_writes_in t' ?evs \<le> (if t' = t then length (p # R) else 0)"
          by (simp add: object_writes_in_def split: if_splits)
      qed
      have cc: "next_txn (snd (update_objects t c (p # R) L w)) = next_txn w"
        using step i3 n2 by simp
      have d: "\<forall>left. fst (update_objects t c (p # R) L w) = Returned left \<longrightarrow>
              map fst left = filter (\<lambda>k. k \<notin> fst ` set (p # R)) (map fst L)"
      proof (intro allI impI)
        fix left
        assume "fst (update_objects t c (p # R) L w) = Returned left"
        with step i4 have "map fst left = filter (\<lambda>k. k \<notin> fst ` set R) (map fst L)" by simp
        also have "\<dots> = filter (\<lambda>k. k \<notin> fst ` set R) (filter (\<lambda>x. x \<noteq> fst p) (map fst L))"
          using keys_absent [OF None] by simp
        also have "\<dots> = filter (\<lambda>k. k \<notin> fst ` set (p # R)) (map fst L)"
          by (simp only: filter_keys_step)
        finally show "map fst left = filter (\<lambda>k. k \<notin> fst ` set (p # R)) (map fst L)" .
      qed
      from a b cc d show ?thesis by blast
    qed
  qed
qed

lemma batch_count:
  assumes "distinct (map fst R)" and "distinct ks"
    and "fst ` set R \<subseteq> set names" and "set ks \<subseteq> set names"
  shows "length R + length (filter (\<lambda>k. k \<notin> fst ` set R) ks) \<le> length names"
proof -
  let ?A = "set (map fst R)"
  let ?B = "set (filter (\<lambda>k. k \<notin> fst ` set R) ks)"
  have a: "card ?A = length R" using assms(1) distinct_card [of "map fst R"] by simp
  have "distinct (filter (\<lambda>k. k \<notin> fst ` set R) ks)" using assms(2) by simp
  then have b: "card ?B = length (filter (\<lambda>k. k \<notin> fst ` set R) ks)"
    by (rule distinct_card)
  have disj: "?A \<inter> ?B = {}" by auto
  have "card (?A \<union> ?B) = card ?A + card ?B"
    using disj by (intro card_Un_disjoint) simp_all
  moreover have "?A \<union> ?B \<subseteq> set names" using assms(3,4) by auto
  then have "card (?A \<union> ?B) \<le> card (set names)" by (simp add: card_mono)
  moreover have "card (set names) \<le> length names" by (rule card_length)
  ultimately show ?thesis using a b by linarith
qed

lemma objectResourcesWithNames_keys:
  "fst ` set (objectResourcesWithNames c names d) \<subseteq> set names"
  by (auto simp: objectResourcesWithNames_def map_filter_def)

lemma remote_objectResourcesWithNames_keys:
  "fst ` set (map (\<lambda>obj. (robj_name obj, obj)) (remote_objectResourcesWithNames rc names))
     \<subseteq> set names"
  by (auto simp: remote_objectResourcesWithNames_def)

lemma update_then_purge_trace:
  assumes "distinct (map fst R)" and "distinct (map fst L)"
    and "fst ` set R \<subseteq> set names" and "fst ` set L \<subseteq> set names"
  shows "\<exists>evs. events (snd (bind (update_objects t c R L)
                    (\<lambda>left. \<lambda>w1. ret () (purge_objects t c left w1)) w)) = events w @ evs
      \<and> (\<forall>t'. object_writes_in t' evs \<le> (if t' = t then length names else 0))
      \<and> next_txn (snd (bind (update_objects t c R L)
                    (\<lambda>left. \<lambda>w1. ret () (purge_objects t c left w1)) w)) = next_txn w"
proof -
  from update_objects_trace [of t c R L w] obtain evs where
    i1: "events (snd (update_objects t c R L w)) = events w @ evs"
    and i2: "\<forall>t'. object_writes_in t' evs \<le> (if t' = t then length R else 0)"
    and i3: "next_txn (snd (update_objects t c R L w)) = next_txn w"
    and i4: "\<forall>left. fst (update_objects t c R L w) = Returned left \<longrightarrow>
            map fst left = filter (\<lambda>k. k \<notin> fst ` set R) (map fst L)"
    by blast
  obtain res w1 where u: "update_objects t c R L w = (res, w1)"
    by (cases "update_objects t c R L w")
  have cnt: "length R + length (filter (\<lambda>k. k \<notin> fst ` set R) (map fst L)) \<le> length names"
    using assms by (intro batch_count) simp_all
  show ?thesis
  proof (cases res)
    case (Raised e)
    have "\<forall>t'. object_writes_in t' evs \<le> (if t' = t then length names else 0)"
    proof
      fix t'
      from i2 have "object_writes_in t' evs \<le> (if t' = t then length R else 0)" ..
      with cnt show "object_writes_in t' evs \<le> (if t' = t then length names else 0)"
        by (simp split: if_splits)
    qed
    with Raised u i1 i3 show ?thesis by (auto simp: bind_def)
  next
    case (Returned left)
    with u i4 have keys: "map fst left = filter (\<lambda>k. k \<notin> fst ` set R) (map fst L)" by simp
    then have len: "length left = length (filter (\<lambda>k. k \<notin> fst ` set R) (map fst L))"
      by (metis length_map)
    let ?evs = "evs @ map (\<lambda>p. ObjectPurge t c (fst p)) left"
    have e: "events (snd (bind (update_objects t c R L)
                    (\<lambda>left. \<lambda>w1. ret () (purge_objects t c left w1)) w)) = events w @ ?evs"
      using Returned u i1 by (simp add: bind_def ret_def purge_objects_events)
    have n: "next_txn (snd (bind (update_objects t c R L)
                    (\<lambda>left. \<lambda>w1. ret () (purge_objects t c left w1)) w)) = next_txn w"
      using Returned u i3 by (simp add: bind_def ret_def purge_objects_next_txn)
    have "\<forall>t'. object_writes_in t' ?evs \<le> (if t' = t then length names else 0)"
    proof
      fix t'
      from i2 have "object_writes_in t' evs \<le> (if t' = t then length R else 0)" ..
      with cnt len show "object_writes_in t' ?evs \<le> (if t' = t then length names else 0)"
        by (simp add: object_writes_in_append object_writes_in_purges split: if_splits)
    qed
    with e n show ?thesis by blast
  qed
qed

lemma bounded_updateBatch:
  "bounded_op (\<lambda>txn. updateBatch rem diruid txn localID remoteID names) (length names)"
  unfolding bounded_op_def
proof (intro allI)
  fix t w
  let ?goal = "(\<exists>evs. events (snd (updateBatch rem diruid (Txn t) localID remoteID names w))
                       = events w @ evs
         \<and> (\<forall>t'. object_writes_in t' evs \<le> (if t' = t then length names else 0)))
      \<and> next_txn (snd (updateBatch rem diruid (Txn t) localID remoteID names w)) = next_txn w"
  have trivial: "snd (updateBatch rem diruid (Txn t) localID remoteID names w) = w \<Longrightarrow> ?goal"
  proof -
    assume s: "snd (updateBatch rem diruid (Txn t) localID remoteID names w) = w"
    have "events w = events w @ []
        \<and> (\<forall>t'. object_writes_in t' [] \<le> (if t' = t then length names else 0))"
      by (simp add: object_writes_in_Nil)
    then show ?goal unfolding s by blast
  qed
  show ?goal
  proof (cases "self_record w")
    case None
    then show ?thesis
      by (intro trivial) (simp add: updateBatch_def remoteHome_def with_txn_def bind_def raise_def)
  next
    case r: (Some r)
    show ?thesis
    proof (cases "send_home_resource_id rem r")
      case None
      with r show ?thesis
        by (intro trivial)
           (simp add: updateBatch_def remoteHome_def with_txn_def bind_def raise_def ret_def)
    next
      case rid: (Some rid)
      show ?thesis
      proof (cases "remote_childWithID rem remoteID")
        case None
        with r rid show ?thesis
          by (intro trivial)
             (simp add: updateBatch_def remoteHome_def with_txn_def bind_def raise_def ret_def)
      next
        case rc: (Some rc)
        show ?thesis
        proof (cases "calendarHomeWithUID (migratingUid diruid) (db w)")
          case None
          with r rid rc show ?thesis
            by (intro trivial)
               (simp add: updateBatch_def remoteHome_def with_txn_def bind_def raise_def ret_def)
        next
          case lh: (Some lh)
          show ?thesis
          proof (cases "childWithID lh localID (db w)")
            case None
            with r rid rc lh show ?thesis
              by (intro trivial)
                 (simp add: updateBatch_def remoteHome_def with_txn_def bind_def raise_def ret_def)
          next
            case c: (Some c)
            let ?R = "dict_of (map (\<lambda>obj. (robj_name obj, obj))
                                      (remote_objectResourcesWithNames rc names))"
            let ?L = "dict_of (objectResourcesWithNames c names (db w))"
            let ?w0 = "log_event (SetMigrating t) w"
            have eq: "updateBatch rem diruid (Txn t) localID remoteID names w
                = bind (update_objects t c ?R ?L)
                    (\<lambda>left. \<lambda>w1. ret () (purge_objects t c left w1)) ?w0"
              using r rid rc lh c
              by (simp add: updateBatch_def remoteHome_def with_txn_def bind_def ret_def)
            have kR: "fst ` set ?R \<subseteq> set names"
              unfolding dict_of_keys by (rule remote_objectResourcesWithNames_keys)
            have kL: "fst ` set ?L \<subseteq> set names"
              unfolding dict_of_keys by (rule objectResourcesWithNames_keys)
            from update_then_purge_trace [OF dict_of_distinct dict_of_distinct kR kL, of t c ?w0]
            obtain evs where
              e: "events (snd (bind (update_objects t c ?R ?L)
                    (\<lambda>left. \<lambda>w1. ret () (purge_objects t c left w1)) ?w0)) = events ?w0 @ evs"
              and b: "\<forall>t'. object_writes_in t' evs \<le> (if t' = t then length names else 0)"
              and n: "next_txn (snd (bind (update_objects t c ?R ?L)
                    (\<lambda>left. \<lambda>w1. ret () (purge_objects t c left w1)) ?w0)) = next_txn ?w0"
              by blast
            have b': "\<forall>t'. object_writes_in t' ([SetMigrating t] @ evs)
                        \<le> (if t' = t then length names else 0)"
            proof
              fix t'
              from b have "object_writes_in t' evs \<le> (if t' = t then length names else 0)" ..
              then show "object_writes_in t' ([SetMigrating t] @ evs)
                        \<le> (if t' = t then length names else 0)"
                by (simp add: object_writes_in_def)
            qed
            have e': "events (snd (updateBatch rem diruid (Txn t) localID remoteID names w))
                        = events w @ ([SetMigrating t] @ evs)"
              unfolding eq using e by (simp add: log_event_def)
            have n': "next_txn (snd (updateBatch rem diruid (Txn t) localID remoteID names w))
                        = next_txn w"
              unfolding eq using n by (simp add: log_event_def)
            from e' b' n' show ?thesis by blast
          qed
        qed
      qed
    qed
  qed
qed


lemma remdups_replicate_eq: "remdups (replicate n x) = (if n = 0 then [] else [x])"
  by (induction n) auto

text \<open>
  Where C7 as stated fails. Fifty-one names are to be purged from a local calendar that
  does not exist: the first window fails, its transaction is aborted, and the exception
  leaves the loop. The second window, with the last name, is never run in any
  transaction.
\<close>

theorem batch_stops_at_failed_window:
  "windows BATCH_SIZE (replicate 50 ''gone.ics'' @ [''e1.ics''])
       = [replicate 50 ''gone.ics'', [''e1.ics'']]
   \<and> purgeDeletedObjectsInBatches ''user42'' record_10_99
         (replicate 50 ''gone.ics'' @ [''e1.ics'']) world_one_object
       = (Raised (AttributeError ''NoneType object has no attribute objectResourcesWithNames''),
          world_one_object
            \<lparr>events := [NewTxn 0 ''Cross-pod Migration Sync for user42: purgeBatch'', Abort 0,
                        LogError ''Cross-pod Migration Sync for user42: purgeBatch failed: NoneType object has no attribute objectResourcesWithNames''],
             next_txn := 1\<rparr>)"
proof -
  have w: "windows BATCH_SIZE (replicate 50 ''gone.ics'' @ [''e1.ics''])
       = [replicate 50 ''gone.ics'', [''e1.ics'']]"
    by (simp add: BATCH_SIZE_def)
  have "purgeDeletedObjectsInBatches ''user42'' record_10_99
         (replicate 50 ''gone.ics'' @ [''e1.ics'']) world_one_object
       = (Raised (AttributeError ''NoneType object has no attribute objectResourcesWithNames''),
          world_one_object
            \<lparr>events := [NewTxn 0 ''Cross-pod Migration Sync for user42: purgeBatch'', Abort 0,
                        LogError ''Cross-pod Migration Sync for user42: purgeBatch failed: NoneType object has no attribute objectResourcesWithNames''],
             next_txn := 1\<rparr>)"
    unfolding purgeDeletedObjectsInBatches_def in_batches_windows w
    by (simp add: call_wrapped_eq purgeBatch_def with_txn_def bind_def ret_def raise_def
        newTransaction_def abort_def log_error_def label_def world_one_object_def
        world_user42_def empty_db_def record_10_99_def record_10_3_def
        calendarHomeWithUID_def migratingUid_def childWithID_def)
  with w show ?thesis by (intro conjI)
qed

text \<open>
  C7, as the code has it. The names are cut into consecutive windows of at most
  \<open>BATCH_SIZE = 50\<close> names (the windows are not empty and concatenate to the input, so
  every name is in exactly one window); the loop calls the decorated batch method on one
  window after the other, each call creating its own transaction, and among the events
  that the loop adds no transaction has more than 50 object purges, overwrites and
  creations. When the loop returns, the transaction counter has advanced by the number of
  windows: every window was run. When a window fails, the loop raises its exception: the
  trace ends with the abort of that window's transaction and the log entry, and only the
  windows up to that one have had a transaction.
\<close>

theorem batch_windowing:
  "concat (windows BATCH_SIZE names) = names
   \<and> (\<forall>b\<in>set (windows BATCH_SIZE names). b \<noteq> [] \<and> length b \<le> 50)
   \<and> purgeDeletedObjectsInBatches diruid migrationRecord names w
       = run_windows
           (\<lambda>b. call_wrapped ''purgeBatch''
              (\<lambda>txn. purgeBatch diruid txn (m_localResourceID migrationRecord) b) diruid)
           (windows BATCH_SIZE names) w
   \<and> (\<exists>evs. events (snd (purgeDeletedObjectsInBatches diruid migrationRecord names w))
               = events w @ evs
          \<and> (\<forall>t. object_writes_in t evs \<le> 50)
          \<and> (\<forall>e. fst (purgeDeletedObjectsInBatches diruid migrationRecord names w) = Raised e
                \<longrightarrow> (\<exists>k<length (windows BATCH_SIZE names).
                       next_txn (snd (purgeDeletedObjectsInBatches diruid migrationRecord
                                        names w))
                         = next_txn w + Suc k
                       \<and> (\<exists>pre. evs = pre @ [Abort (next_txn w + k),
                             LogError (label diruid ''purgeBatch'' @ '' failed: ''
                                         @ str_exn e)]))))
   \<and> (fst (purgeDeletedObjectsInBatches diruid migrationRecord names w) = Returned ()
        \<longrightarrow> next_txn (snd (purgeDeletedObjectsInBatches diruid migrationRecord names w))
              = next_txn w + length (windows BATCH_SIZE names))
   \<and> updateChangedObjectsInBatches rem diruid migrationRecord names w
       = run_windows
           (\<lambda>b. call_wrapped ''updateBatch''
              (\<lambda>txn. updateBatch rem diruid txn (m_localResourceID migrationRecord)
                        (m_remoteResourceID migrationRecord) b) diruid)
           (windows BATCH_SIZE names) w
   \<and> (\<exists>evs. events (snd (updateChangedObjectsInBatches rem diruid migrationRecord names w))
               = events w @ evs
          \<and> (\<forall>t. object_writes_in t evs \<le> 50)
          \<and> (\<forall>e. fst (updateChangedObjectsInBatches rem diruid migrationRecord names w)
                    = Raised e
                \<longrightarrow> (\<exists>k<length (windows BATCH_SIZE names).
                       next_txn (snd (updateChangedObjectsInBatches rem diruid migrationRecord
                                        names w))
                         = next_txn w + Suc k
                       \<and> (\<exists>pre. evs = pre @ [Abort (next_txn w + k),
                             LogError (label diruid ''updateBatch'' @ '' failed: ''
                                         @ str_exn e)]))))
   \<and> (fst (updateChangedObjectsInBatches rem diruid migrationRecord names w) = Returned ()
        \<longrightarrow> next_txn (snd (updateChangedObjectsInBatches rem diruid migrationRecord names w))
              = next_txn w + length (windows BATCH_SIZE names))"
proof -
  let ?ws = "windows BATCH_SIZE names"
  have wb: "\<forall>b\<in>set ?ws. b \<noteq> [] \<and> length b \<le> 50"
  proof
    fix b assume "b \<in> set ?ws"
    from windows_bound [OF this] show "b \<noteq> [] \<and> length b \<le> 50"
      unfolding BATCH_SIZE_def .
  qed
  have wc: "concat ?ws = names"
    by (rule windows_concat) (simp add: BATCH_SIZE_def)
  let ?pop = "\<lambda>b txn. purgeBatch diruid txn (m_localResourceID migrationRecord) b"
  let ?uop = "\<lambda>b txn. updateBatch rem diruid txn (m_localResourceID migrationRecord)
                        (m_remoteResourceID migrationRecord) b"
  let ?P = "purgeDeletedObjectsInBatches diruid migrationRecord names w"
  let ?U = "updateChangedObjectsInBatches rem diruid migrationRecord names w"
  have pe: "?P = run_windows (\<lambda>b. call_wrapped ''purgeBatch'' (?pop b) diruid) ?ws w"
    by (simp only: purgeDeletedObjectsInBatches_def in_batches_windows)
  have ue: "?U = run_windows (\<lambda>b. call_wrapped ''updateBatch'' (?uop b) diruid) ?ws w"
    by (simp only: updateChangedObjectsInBatches_def in_batches_windows)
  have pb: "\<forall>b\<in>set ?ws. bounded_op (?pop b) 50"
  proof
    fix b assume "b \<in> set ?ws"
    with wb have "length b \<le> 50" by blast
    from bounded_op_mono [OF bounded_purgeBatch this] show "bounded_op (?pop b) 50" .
  qed
  have ub: "\<forall>b\<in>set ?ws. bounded_op (?uop b) 50"
  proof
    fix b assume "b \<in> set ?ws"
    with wb have "length b \<le> 50" by blast
    from bounded_op_mono [OF bounded_updateBatch this] show "bounded_op (?uop b) 50" .
  qed
  from run_windows_trace [OF pb, of "''purgeBatch''" diruid w, folded pe] obtain pevs where
    p1: "events (snd ?P) = events w @ pevs"
    and p2: "\<forall>t. object_writes_in t pevs
               \<le> (if next_txn w \<le> t \<and> t < next_txn w + length ?ws then 50 else 0)"
    and p3: "fst ?P = Returned () \<longrightarrow> next_txn (snd ?P) = next_txn w + length ?ws"
    and p4: "\<forall>e. fst ?P = Raised e \<longrightarrow>
               (\<exists>k<length ?ws. next_txn (snd ?P) = next_txn w + Suc k
                  \<and> (\<exists>pre. pevs = pre @ [Abort (next_txn w + k),
                         LogError (label diruid ''purgeBatch'' @ '' failed: '' @ str_exn e)]))"
    by blast
  from run_windows_trace [OF ub, of "''updateBatch''" diruid w, folded ue] obtain uevs where
    u1: "events (snd ?U) = events w @ uevs"
    and u2: "\<forall>t. object_writes_in t uevs
               \<le> (if next_txn w \<le> t \<and> t < next_txn w + length ?ws then 50 else 0)"
    and u3: "fst ?U = Returned () \<longrightarrow> next_txn (snd ?U) = next_txn w + length ?ws"
    and u4: "\<forall>e. fst ?U = Raised e \<longrightarrow>
               (\<exists>k<length ?ws. next_txn (snd ?U) = next_txn w + Suc k
                  \<and> (\<exists>pre. uevs = pre @ [Abort (next_txn w + k),
                         LogError (label diruid ''updateBatch'' @ '' failed: '' @ str_exn e)]))"
    by blast
  have p2': "\<forall>t. object_writes_in t pevs \<le> 50"
  proof
    fix t
    from p2 have "object_writes_in t pevs
               \<le> (if next_txn w \<le> t \<and> t < next_txn w + length ?ws then 50 else 0)" ..
    then show "object_writes_in t pevs \<le> 50" by (simp split: if_splits)
  qed
  have u2': "\<forall>t. object_writes_in t uevs \<le> 50"
  proof
    fix t
    from u2 have "object_writes_in t uevs
               \<le> (if next_txn w \<le> t \<and> t < next_txn w + length ?ws then 50 else 0)" ..
    then show "object_writes_in t uevs \<le> 50" by (simp split: if_splits)
  qed
  have P: "\<exists>evs. events (snd ?P) = events w @ evs \<and> (\<forall>t. object_writes_in t evs \<le> 50)
          \<and> (\<forall>e. fst ?P = Raised e
                \<longrightarrow> (\<exists>k<length ?ws. next_txn (snd ?P) = next_txn w + Suc k
                       \<and> (\<exists>pre. evs = pre @ [Abort (next_txn w + k),
                             LogError (label diruid ''purgeBatch'' @ '' failed: ''
                                         @ str_exn e)])))"
    using p1 p2' p4 by blast
  have U: "\<exists>evs. events (snd ?U) = events w @ evs \<and> (\<forall>t. object_writes_in t evs \<le> 50)
          \<and> (\<forall>e. fst ?U = Raised e
                \<longrightarrow> (\<exists>k<length ?ws. next_txn (snd ?U) = next_txn w + Suc k
                       \<and> (\<exists>pre. evs = pre @ [Abort (next_txn w + k),
                             LogError (label diruid ''updateBatch'' @ '' failed: ''
                                         @ str_exn e)])))"
    using u1 u2' u4 by blast
  show ?thesis
    by (intro conjI) (rule wc wb pe P p3 ue U u3)+
qed

theorem batch_windowing_witness:
  "windows BATCH_SIZE (replicate 51 ''gone.ics'' @ [''e1.ics''])
       = [replicate 50 ''gone.ics'', [''gone.ics'', ''e1.ics'']]
   \<and> concat (windows BATCH_SIZE (replicate 51 ''gone.ics'' @ [''e1.ics'']))
       = replicate 51 ''gone.ics'' @ [''e1.ics'']
   \<and> fst (purgeDeletedObjectsInBatches ''user42'' record_10_3
             (replicate 51 ''gone.ics'' @ [''e1.ics'']) world_one_object) = Returned ()
   \<and> events (snd (purgeDeletedObjectsInBatches ''user42'' record_10_3
                    (replicate 51 ''gone.ics'' @ [''e1.ics'']) world_one_object))
       = [NewTxn 0 ''Cross-pod Migration Sync for user42: purgeBatch'', Commit 0,
          NewTxn 1 ''Cross-pod Migration Sync for user42: purgeBatch'',
          ObjectPurge 1 3 ''e1.ics'', Commit 1]
   \<and> next_txn (snd (purgeDeletedObjectsInBatches ''user42'' record_10_3
                    (replicate 51 ''gone.ics'' @ [''e1.ics'']) world_one_object)) = 2
   \<and> events (snd (updateChangedObjectsInBatches env_remote ''user42'' record_10_3
                    [''e1.ics'', ''e2.ics''] world_one_object))
       = [NewTxn 0 ''Cross-pod Migration Sync for user42: updateBatch'', SetMigrating 0,
          ObjectSet 0 3 ''e1.ics'', ObjectCopyMetadata 0 3 ''e1.ics'',
          ObjectCreate 0 3 ''e2.ics'', ObjectCopyMetadata 0 3 ''e2.ics'', Commit 0]
   \<and> fst (purgeDeletedObjectsInBatches ''user42'' record_10_99
             (replicate 51 ''gone.ics'' @ [''e1.ics'']) world_one_object)
       = Raised (AttributeError ''NoneType object has no attribute objectResourcesWithNames'')
   \<and> next_txn (snd (purgeDeletedObjectsInBatches ''user42'' record_10_99
                    (replicate 51 ''gone.ics'' @ [''e1.ics'']) world_one_object)) = 1"
proof -
  have w: "windows BATCH_SIZE (replicate 51 ''gone.ics'' @ [''e1.ics''])
       = [replicate 50 ''gone.ics'', [''gone.ics'', ''e1.ics'']]"
    by (simp add: BATCH_SIZE_def)
  have w2: "windows BATCH_SIZE [''e1.ics'', ''e2.ics''] = [[''e1.ics'', ''e2.ics'']]"
    by (simp add: BATCH_SIZE_def)
  have r: "remdups (replicate 50 ''gone.ics'') = [''gone.ics'']"
    by (simp add: remdups_replicate_eq)
  note t1 = batch_windowing [of "replicate 51 ''gone.ics'' @ [''e1.ics'']" "''user42''"
      record_10_3 world_one_object env_remote]
  note t2 = batch_windowing [of "[''e1.ics'', ''e2.ics'']" "''user42''"
      record_10_3 world_one_object env_remote]
  note t3 = batch_windowing [of "replicate 51 ''gone.ics'' @ [''e1.ics'']" "''user42''"
      record_10_99 world_one_object env_remote]
  from t1 have pe: "purgeDeletedObjectsInBatches ''user42'' record_10_3
                    (replicate 51 ''gone.ics'' @ [''e1.ics'']) world_one_object
       = run_windows
           (\<lambda>b. call_wrapped ''purgeBatch''
              (\<lambda>txn. purgeBatch ''user42'' txn (m_localResourceID record_10_3) b) ''user42'')
           (windows BATCH_SIZE (replicate 51 ''gone.ics'' @ [''e1.ics''])) world_one_object"
    by (elim conjE)
  have run: "purgeDeletedObjectsInBatches ''user42'' record_10_3
                    (replicate 51 ''gone.ics'' @ [''e1.ics'']) world_one_object
       = (Returned (),
          purge_objects 1 3 [(''e1.ics'', \<lparr>obj_id = 4, obj_md5 = ''x'', obj_component = ''v1'',
                                         obj_metadata = []\<rparr>)]
            (world_one_object
               \<lparr>snapshots := [(1, db world_one_object)],
                events := [NewTxn 0 ''Cross-pod Migration Sync for user42: purgeBatch'', Commit 0,
                           NewTxn 1 ''Cross-pod Migration Sync for user42: purgeBatch''],
                next_txn := 2\<rparr>)
            \<lparr>snapshots := [],
             events := [NewTxn 0 ''Cross-pod Migration Sync for user42: purgeBatch'', Commit 0,
                        NewTxn 1 ''Cross-pod Migration Sync for user42: purgeBatch'',
                        ObjectPurge 1 3 ''e1.ics'', Commit 1]\<rparr>)"
    unfolding pe w
    by (simp add: call_wrapped_eq purgeBatch_def with_txn_def bind_def ret_def
        newTransaction_def commit_def label_def world_one_object_def world_user42_def
        empty_db_def record_10_3_def calendarHomeWithUID_def migratingUid_def childWithID_def
        objectResourcesWithNames_def objects_of_def map_filter_def r log_event_def modify_db_def
        object_purge_def update_calendar_def)
  have p0: "fst (purgeDeletedObjectsInBatches ''user42'' record_10_3
             (replicate 51 ''gone.ics'' @ [''e1.ics'']) world_one_object) = Returned ()"
    unfolding run by simp
  have p: "events (snd (purgeDeletedObjectsInBatches ''user42'' record_10_3
                    (replicate 51 ''gone.ics'' @ [''e1.ics'']) world_one_object))
       = [NewTxn 0 ''Cross-pod Migration Sync for user42: purgeBatch'', Commit 0,
          NewTxn 1 ''Cross-pod Migration Sync for user42: purgeBatch'',
          ObjectPurge 1 3 ''e1.ics'', Commit 1]"
    unfolding run by simp
  from t1 have imp:
    "fst (purgeDeletedObjectsInBatches ''user42'' record_10_3
            (replicate 51 ''gone.ics'' @ [''e1.ics'']) world_one_object) = Returned ()
     \<longrightarrow> next_txn (snd (purgeDeletedObjectsInBatches ''user42'' record_10_3
                    (replicate 51 ''gone.ics'' @ [''e1.ics'']) world_one_object))
          = next_txn world_one_object
            + length (windows BATCH_SIZE (replicate 51 ''gone.ics'' @ [''e1.ics'']))"
    by (elim conjE)
  from imp p0 have n0:
    "next_txn (snd (purgeDeletedObjectsInBatches ''user42'' record_10_3
                    (replicate 51 ''gone.ics'' @ [''e1.ics'']) world_one_object))
          = next_txn world_one_object
            + length (windows BATCH_SIZE (replicate 51 ''gone.ics'' @ [''e1.ics'']))"
    by (rule mp)
  have pn: "next_txn (snd (purgeDeletedObjectsInBatches ''user42'' record_10_3
                    (replicate 51 ''gone.ics'' @ [''e1.ics'']) world_one_object)) = 2"
    unfolding n0 w by (simp add: world_one_object_def world_user42_def)
  have u: "events (snd (updateChangedObjectsInBatches env_remote ''user42'' record_10_3
                    [''e1.ics'', ''e2.ics''] world_one_object))
       = [NewTxn 0 ''Cross-pod Migration Sync for user42: updateBatch'', SetMigrating 0,
          ObjectSet 0 3 ''e1.ics'', ObjectCopyMetadata 0 3 ''e1.ics'',
          ObjectCreate 0 3 ''e2.ics'', ObjectCopyMetadata 0 3 ''e2.ics'', Commit 0]"
    using t2 unfolding w2
    by (simp add: call_wrapped_eq updateBatch_def remoteHome_def with_txn_def bind_def ret_def
        newTransaction_def commit_def label_def world_one_object_def world_user42_def
        empty_db_def record_10_3_def calendarHomeWithUID_def migratingUid_def childWithID_def
        objectResourcesWithNames_def objects_of_def map_filter_def log_event_def modify_db_def
        update_calendar_def env_remote_def env_null_def remote_childWithID_def
        remote_objectResourcesWithNames_def dict_of_def get_homeId_def
        setComponentInternal_def object_copyMetadata_def createCalendarObjectWithNameInternal_def)
  from t3 have fe: "purgeDeletedObjectsInBatches ''user42'' record_10_99
                    (replicate 51 ''gone.ics'' @ [''e1.ics'']) world_one_object
       = run_windows
           (\<lambda>b. call_wrapped ''purgeBatch''
              (\<lambda>txn. purgeBatch ''user42'' txn (m_localResourceID record_10_99) b) ''user42'')
           (windows BATCH_SIZE (replicate 51 ''gone.ics'' @ [''e1.ics''])) world_one_object"
    by (elim conjE)
  have f: "purgeDeletedObjectsInBatches ''user42'' record_10_99
             (replicate 51 ''gone.ics'' @ [''e1.ics'']) world_one_object
       = (Raised (AttributeError ''NoneType object has no attribute objectResourcesWithNames''),
          world_one_object
            \<lparr>events := [NewTxn 0 ''Cross-pod Migration Sync for user42: purgeBatch'', Abort 0,
                        LogError ''Cross-pod Migration Sync for user42: purgeBatch failed: NoneType object has no attribute objectResourcesWithNames''],
             next_txn := 1\<rparr>)"
    unfolding fe w
    by (simp add: call_wrapped_eq purgeBatch_def with_txn_def bind_def ret_def raise_def
        newTransaction_def abort_def log_error_def label_def world_one_object_def
        world_user42_def empty_db_def record_10_99_def record_10_3_def
        calendarHomeWithUID_def migratingUid_def childWithID_def)
  have f1: "fst (purgeDeletedObjectsInBatches ''user42'' record_10_99
             (replicate 51 ''gone.ics'' @ [''e1.ics'']) world_one_object)
       = Raised (AttributeError ''NoneType object has no attribute objectResourcesWithNames'')"
    and f2: "next_txn (snd (purgeDeletedObjectsInBatches ''user42'' record_10_99
                    (replicate 51 ''gone.ics'' @ [''e1.ics'']) world_one_object)) = 1"
    unfolding f by simp_all
  from t1 have b: "concat (windows BATCH_SIZE (replicate 51 ''gone.ics'' @ [''e1.ics'']))
       = replicate 51 ''gone.ics'' @ [''e1.ics'']"
    by (elim conjE)
  from w b p0 p pn u f1 f2 show ?thesis by (intro conjI)
qed

subsection \<open>The objects to sync\<close>

lemma map_of_foldl_update:
  "map_of (foldl (\<lambda>d p. AList.update (fst p) (snd p) d) acc ps) k
     = (case map_of (rev ps) k of Some v \<Rightarrow> Some v | None \<Rightarrow> map_of acc k)"
proof (induction ps arbitrary: acc)
  case Nil
  show ?case by simp
next
  case (Cons p ps)
  show ?case
    by (cases p) (simp add: Cons.IH update_conv' map_add_def split: option.splits)
qed

lemma map_of_dict_of: "map_of (dict_of ps) k = map_of (rev ps) k"
  by (simp add: dict_of_def map_of_foldl_update split: option.splits)

lemma map_of_rev_distinct:
  assumes "distinct (map fst ps)"
  shows "map_of (rev ps) k = map_of ps k"
proof -
  have d: "distinct (map fst (rev ps))" using assms by (simp add: rev_map [symmetric])
  show ?thesis
  proof (cases "map_of ps k")
    case None
    then have "k \<notin> fst ` set ps" by (simp add: map_of_eq_None_iff)
    then have "map_of (rev ps) k = None" by (simp add: map_of_eq_None_iff)
    with None show ?thesis by simp
  next
    case (Some v)
    then have "(k, v) \<in> set ps" by (rule map_of_SomeD)
    then have "(k, v) \<in> set (rev ps)" by simp
    with d have "map_of (rev ps) k = Some v" by (rule map_of_is_SomeI)
    with Some show ?thesis by simp
  qed
qed

lemma map_of_named_filter:
  "map_of (map (\<lambda>obj. (robj_name obj, obj)) (filter (\<lambda>obj. robj_name obj \<in> S) xs)) n
     = (if n \<in> S then find (\<lambda>obj. robj_name obj = n) xs else None)"
  by (induction xs) auto

lemma map_of_remote_changes:
  "map_of (dict_of (map (\<lambda>obj. (robj_name obj, obj))
             (remote_objectResourcesWithNames rc changed))) n
     = (if n \<in> set changed then remote_last rc n else None)"
  by (simp add: map_of_dict_of remote_objectResourcesWithNames_def remote_last_def
      rev_map rev_filter map_of_named_filter)

lemma objectResourcesWithNames_distinct:
  "distinct (map fst (objectResourcesWithNames c names d))"
proof -
  have g: "\<And>xs. map fst (List.map_filter (\<lambda>n. map_option (Pair n) (map_of (objects_of c d) n)) xs)
             = filter (\<lambda>n. map_of (objects_of c d) n \<noteq> None) xs"
  proof -
    fix xs
    show "map fst (List.map_filter (\<lambda>n. map_option (Pair n) (map_of (objects_of c d) n)) xs)
             = filter (\<lambda>n. map_of (objects_of c d) n \<noteq> None) xs"
      by (induction xs) (auto simp: map_filter_simps split: option.splits)
  qed
  show ?thesis unfolding objectResourcesWithNames_def by (simp add: g)
qed

lemma map_of_objectResourcesWithNames:
  "map_of (objectResourcesWithNames c names d) n
     = (if n \<in> set names then map_of (objects_of c d) n else None)"
proof -
  have g: "\<And>xs. map_of (List.map_filter (\<lambda>n. map_option (Pair n) (map_of (objects_of c d) n)) xs) n
             = (if n \<in> set xs then map_of (objects_of c d) n else None)"
  proof -
    fix xs
    show "map_of (List.map_filter (\<lambda>n. map_option (Pair n) (map_of (objects_of c d) n)) xs) n
             = (if n \<in> set xs then map_of (objects_of c d) n else None)"
      by (induction xs) (auto simp: map_filter_simps split: option.splits)
  qed
  show ?thesis unfolding objectResourcesWithNames_def by (simp add: g)
qed

lemma map_of_local_changes:
  "map_of (dict_of (objectResourcesWithNames c changed d)) n
     = (if n \<in> set changed then map_of (objects_of c d) n else None)"
  by (simp only: map_of_dict_of map_of_rev_distinct [OF objectResourcesWithNames_distinct]
      map_of_objectResourcesWithNames)

lemma objectResourcesWithNames_names:
  "map fst (objectResourcesWithNames c names d)
     = filter (\<lambda>n. map_of (objects_of c d) n \<noteq> None) (remdups names)"
proof -
  have g: "\<And>xs. map fst (List.map_filter (\<lambda>n. map_option (Pair n) (map_of (objects_of c d) n)) xs)
             = filter (\<lambda>n. map_of (objects_of c d) n \<noteq> None) xs"
  proof -
    fix xs
    show "map fst (List.map_filter (\<lambda>n. map_option (Pair n) (map_of (objects_of c d) n)) xs)
             = filter (\<lambda>n. map_of (objects_of c d) n \<noteq> None) xs"
      by (induction xs) (auto simp: map_filter_simps split: option.splits)
  qed
  show ?thesis unfolding objectResourcesWithNames_def by (simp add: g)
qed

lemma objectResourcesWithNames_present:
  "objectResourcesWithNames c (filter (\<lambda>n. map_of (objects_of c d) n \<noteq> None) names) d
     = objectResourcesWithNames c names d"
proof -
  have g: "\<And>xs. List.map_filter (\<lambda>n. map_option (Pair n) (map_of (objects_of c d) n))
                  (filter (\<lambda>n. map_of (objects_of c d) n \<noteq> None) xs)
             = List.map_filter (\<lambda>n. map_option (Pair n) (map_of (objects_of c d) n)) xs"
  proof -
    fix xs
    show "List.map_filter (\<lambda>n. map_option (Pair n) (map_of (objects_of c d) n))
                  (filter (\<lambda>n. map_of (objects_of c d) n \<noteq> None) xs)
             = List.map_filter (\<lambda>n. map_option (Pair n) (map_of (objects_of c d) n)) xs"
      by (induction xs) (auto simp: map_filter_simps split: option.splits)
  qed
  show ?thesis unfolding objectResourcesWithNames_def remdups_filter by (rule g)
qed

lemma kept_names:
  assumes dR: "distinct (map fst R)"
    and mR: "\<And>n. map_of R n = (if n \<in> set changed then remote_last rc n else None)"
    and mL: "\<And>n. map_of L n = (if n \<in> set changed then map_of local n else None)"
  shows "set (map fst (filter (\<lambda>p. case map_of L (fst p) of
                                      None \<Rightarrow> True
                                    | Some lobj \<Rightarrow> robj_md5 (snd p) \<noteq> obj_md5 lobj) R))
         = set (filter (needs_sync rc local) changed)"
proof (intro set_eqI iffI)
  fix n
  assume "n \<in> set (map fst (filter (\<lambda>p. case map_of L (fst p) of
                                      None \<Rightarrow> True
                                    | Some lobj \<Rightarrow> robj_md5 (snd p) \<noteq> obj_md5 lobj) R))"
  then obtain p where pR: "p \<in> set R" and pn: "fst p = n"
    and pq: "case map_of L (fst p) of None \<Rightarrow> True
             | Some lobj \<Rightarrow> robj_md5 (snd p) \<noteq> obj_md5 lobj"
    by auto
  define ro where "ro = snd p"
  have "p = (n, ro)" unfolding ro_def using pn by (simp add: prod_eq_iff)
  with pR have in_R: "(n, ro) \<in> set R" by simp
  from pq pn have
    q: "case map_of L n of None \<Rightarrow> True | Some lobj \<Rightarrow> robj_md5 ro \<noteq> obj_md5 lobj"
    unfolding ro_def by simp
  from dR in_R have "map_of R n = Some ro" by (rule map_of_is_SomeI)
  with mR [of n] have c: "n \<in> set changed" and rl: "remote_last rc n = Some ro"
    by (simp_all split: if_splits)
  from q mL [of n] c rl have "needs_sync rc local n"
    by (simp add: needs_sync_def)
  with c show "n \<in> set (filter (needs_sync rc local) changed)" by simp
next
  fix n
  assume "n \<in> set (filter (needs_sync rc local) changed)"
  then have c: "n \<in> set changed" and ns: "needs_sync rc local n" by simp_all
  from ns obtain ro where rl: "remote_last rc n = Some ro"
    and q: "case map_of local n of None \<Rightarrow> True | Some lobj \<Rightarrow> robj_md5 ro \<noteq> obj_md5 lobj"
    by (auto simp: needs_sync_def split: option.splits)
  from rl c mR [of n] have "map_of R n = Some ro" by simp
  then have in_R: "(n, ro) \<in> set R" by (rule map_of_SomeD)
  from q c mL [of n] have
    "case map_of L (fst (n, ro)) of None \<Rightarrow> True
     | Some lobj \<Rightarrow> robj_md5 (snd (n, ro)) \<noteq> obj_md5 lobj"
    by (simp split: option.splits)
  with in_R have "(n, ro) \<in> set (filter (\<lambda>p. case map_of L (fst p) of
                                      None \<Rightarrow> True
                                    | Some lobj \<Rightarrow> robj_md5 (snd p) \<noteq> obj_md5 lobj) R)"
    by simp
  then show "n \<in> set (map fst (filter (\<lambda>p. case map_of L (fst p) of
                                      None \<Rightarrow> True
                                    | Some lobj \<Rightarrow> robj_md5 (snd p) \<noteq> obj_md5 lobj) R))"
    by force
qed

lemma distinct_singleton:
  assumes "distinct xs" and "set xs = {x}"
  shows "xs = [x]"
proof -
  from assms have "length xs = 1" using distinct_card [of xs] by simp
  then obtain y where y: "xs = [y]" by (cases xs) auto
  with assms(2) show ?thesis by simp
qed

text \<open>
  Where C3 as stated fails: a name of \<open>changed\<close> for which the remote calendar
  returns no object is not in the result, although it is absent locally.
\<close>

theorem findObjectsToSync_ghost_counterexample:
  "fst (findObjectsToSync env_ghost ''user42'' (Txn 0) record_10_3 world_one_object)
     = Returned (Some ([''e2.ics''], [''old.ics'']))
   \<and> spec_changes (the (remote_childWithID env_ghost 10)) (objects_of 3 (db world_one_object))
       [''ghost.ics'', ''e1.ics'', ''e2.ics''] = [''ghost.ics'', ''e2.ics'']
   \<and> set [''e2.ics''] \<noteq> set [''ghost.ics'', ''e2.ics'']"
  by (simp add: findObjectsToSync_def remoteHome_def with_txn_def bind_def ret_def raise_def
      env_ghost_def env_remote_def env_null_def world_one_object_def world_user42_def
      empty_db_def record_10_3_def remote_childWithID_def log_event_def
      calendarHomeWithUID_def migratingUid_def childWithID_def
      remote_objectResourcesWithNames_def objectResourcesWithNames_def objects_of_def
      map_filter_def dict_of_def spec_changes_def remote_last_def)


text \<open>
  C3, as the code has it. When the remote home, the remote calendar and the local calendar
  of the migration record exist, \<open>findObjectsToSync\<close> asks \<open>resourceNamesSinceToken\<close>
  with the stored token and returns, first, exactly the names of \<open>changed\<close> for which the
  remote calendar returns an object and which are absent locally or have another md5
  locally, each once, and second, \<open>deleted\<close> as it is. A purge batch returns whatever
  names it is given: the names that are absent locally make no difference to what it does,
  and exactly the names that are present are purged, each once.
\<close>

theorem findObjectsToSync_changes:
  assumes "self_record w = Some r"
    and "send_home_resource_id rem r = Some rid"
    and "remote_childWithID rem (m_remoteResourceID migrationRecord) = Some rc"
    and "calendarHomeWithUID (migratingUid diruid) (db w) = Some lh"
    and "childWithID lh (m_localResourceID migrationRecord) (db w) = Some c"
    and "resourceNamesSinceToken rem (rcal_id rc) (m_lastSyncToken migrationRecord)
           = (changed, deleted, invalid)"
  shows "(\<exists>actual.
            findObjectsToSync rem diruid (Txn t) migrationRecord w
              = (Returned (Some (actual, deleted)),
                 log_event (ResourceNamesSinceToken (rcal_id rc)
                              (m_lastSyncToken migrationRecord)) w)
          \<and> distinct actual
          \<and> set actual = set (filter (needs_sync rc (objects_of c (db w))) changed))
       \<and> (\<forall>names.
            fst (purgeBatch diruid (Txn t) (m_localResourceID migrationRecord) names w)
              = Returned ()
          \<and> purgeBatch diruid (Txn t) (m_localResourceID migrationRecord) names w
              = purgeBatch diruid (Txn t) (m_localResourceID migrationRecord)
                  (filter (\<lambda>n. map_of (objects_of c (db w)) n \<noteq> None) names) w
          \<and> events (snd (purgeBatch diruid (Txn t) (m_localResourceID migrationRecord)
                            names w))
              = events w @ map (ObjectPurge t c)
                  (filter (\<lambda>n. map_of (objects_of c (db w)) n \<noteq> None) (remdups names)))"
proof (intro conjI allI)
  let ?R = "dict_of (map (\<lambda>obj. (robj_name obj, obj))
                       (remote_objectResourcesWithNames rc changed))"
  let ?L = "dict_of (objectResourcesWithNames c changed (db w))"
  let ?actual = "map fst (filter (\<lambda>p. case map_of ?L (fst p) of
                                      None \<Rightarrow> True
                                    | Some lobj \<Rightarrow> robj_md5 (snd p) \<noteq> obj_md5 lobj) ?R)"
  have eq: "findObjectsToSync rem diruid (Txn t) migrationRecord w
              = (Returned (Some (?actual, deleted)),
                 log_event (ResourceNamesSinceToken (rcal_id rc)
                              (m_lastSyncToken migrationRecord)) w)"
    using assms
    by (simp add: findObjectsToSync_def remoteHome_def with_txn_def bind_def ret_def
        log_event_def)
  have d: "distinct ?actual"
    by (intro distinct_map_filter dict_of_distinct)
  have s: "set ?actual = set (filter (needs_sync rc (objects_of c (db w))) changed)"
    by (rule kept_names [OF dict_of_distinct map_of_remote_changes map_of_local_changes])
  from eq d s show "\<exists>actual.
            findObjectsToSync rem diruid (Txn t) migrationRecord w
              = (Returned (Some (actual, deleted)),
                 log_event (ResourceNamesSinceToken (rcal_id rc)
                              (m_lastSyncToken migrationRecord)) w)
          \<and> distinct actual
          \<and> set actual = set (filter (needs_sync rc (objects_of c (db w))) changed)"
    by blast
next
  fix names
  have pb: "\<And>ns. purgeBatch diruid (Txn t) (m_localResourceID migrationRecord) ns w
              = (Returned (), purge_objects t c (objectResourcesWithNames c ns (db w)) w)"
    using assms by (simp add: purgeBatch_def with_txn_def ret_def)
  show "fst (purgeBatch diruid (Txn t) (m_localResourceID migrationRecord) names w)
          = Returned ()"
    by (simp add: pb)
  show "purgeBatch diruid (Txn t) (m_localResourceID migrationRecord) names w
          = purgeBatch diruid (Txn t) (m_localResourceID migrationRecord)
              (filter (\<lambda>n. map_of (objects_of c (db w)) n \<noteq> None) names) w"
    by (simp only: pb objectResourcesWithNames_present)
  have "map (\<lambda>p. ObjectPurge t c (fst p)) (objectResourcesWithNames c names (db w))
          = map (ObjectPurge t c) (map fst (objectResourcesWithNames c names (db w)))"
    by simp
  also have "\<dots> = map (ObjectPurge t c)
                  (filter (\<lambda>n. map_of (objects_of c (db w)) n \<noteq> None) (remdups names))"
    by (simp only: objectResourcesWithNames_names)
  finally show "events (snd (purgeBatch diruid (Txn t) (m_localResourceID migrationRecord)
                            names w))
              = events w @ map (ObjectPurge t c)
                  (filter (\<lambda>n. map_of (objects_of c (db w)) n \<noteq> None) (remdups names))"
    by (simp add: pb purge_objects_events)
qed

theorem findObjectsToSync_changes_witness:
  "findObjectsToSync env_remote ''user42'' (Txn 0) record_10_3 world_one_object
     = (Returned (Some ([''e2.ics''], [])),
        log_event (ResourceNamesSinceToken 10 None) world_one_object)
   \<and> filter (needs_sync (the (remote_childWithID env_remote 10))
               (objects_of 3 (db world_one_object))) [''e1.ics'', ''e2.ics'']
       = [''e2.ics'']
   \<and> filter (\<lambda>n. map_of (objects_of 3 (db world_one_object)) n \<noteq> None)
        [''gone.ics'', ''e1.ics'', ''gone.ics''] = [''e1.ics'']
   \<and> fst (purgeBatch ''user42'' (Txn 0) 3 [''gone.ics'', ''e1.ics'', ''gone.ics'']
            world_one_object) = Returned ()
   \<and> purgeBatch ''user42'' (Txn 0) 3 [''gone.ics'', ''e1.ics'', ''gone.ics''] world_one_object
       = purgeBatch ''user42'' (Txn 0) 3 [''e1.ics''] world_one_object
   \<and> events (snd (purgeBatch ''user42'' (Txn 0) 3 [''gone.ics'', ''e1.ics'', ''gone.ics'']
                    world_one_object))
       = [ObjectPurge 0 3 ''e1.ics'']
   \<and> purgeBatch ''user42'' (Txn 0) 3 [''gone.ics''] world_one_object
       = purgeBatch ''user42'' (Txn 0) 3 [] world_one_object"
proof -
  have h1: "self_record world_one_object = Some user42"
    by (simp add: world_one_object_def world_user42_def)
  have h2: "send_home_resource_id env_remote user42 = Some 5"
    by (simp add: env_remote_def)
  have h3: "remote_childWithID env_remote (m_remoteResourceID record_10_3)
      = Some (hd (remote_children env_remote))"
    by (simp add: env_remote_def remote_childWithID_def record_10_3_def)
  have h4: "calendarHomeWithUID (migratingUid ''user42'') (db world_one_object)
      = Some \<lparr>home_id = 1, home_metadata = [], home_quotaUsed = 0\<rparr>"
    by (simp add: calendarHomeWithUID_def migratingUid_def world_one_object_def
        world_user42_def empty_db_def)
  have h5: "childWithID \<lparr>home_id = 1, home_metadata = [], home_quotaUsed = 0\<rparr>
              (m_localResourceID record_10_3) (db world_one_object) = Some 3"
    by (simp add: childWithID_def record_10_3_def world_one_object_def world_user42_def
        empty_db_def)
  have h6: "resourceNamesSinceToken env_remote (rcal_id (hd (remote_children env_remote)))
              (m_lastSyncToken record_10_3) = ([''e1.ics'', ''e2.ics''], [], False)"
    by (simp add: env_remote_def record_10_3_def)
  note t = findObjectsToSync_changes [OF h1 h2 h3 h4 h5 h6, of 0]
  have l3: "m_localResourceID record_10_3 = 3" by (simp add: record_10_3_def)
  have n: "filter (needs_sync (the (remote_childWithID env_remote 10))
               (objects_of 3 (db world_one_object))) [''e1.ics'', ''e2.ics'']
       = [''e2.ics'']"
    by (simp add: needs_sync_def remote_last_def env_remote_def remote_childWithID_def
        objects_of_def world_one_object_def world_user42_def empty_db_def)
  have a: "filter (\<lambda>n. map_of (objects_of 3 (db world_one_object)) n \<noteq> None)
        [''gone.ics'', ''e1.ics'', ''gone.ics''] = [''e1.ics'']"
    and a1: "filter (\<lambda>n. map_of (objects_of 3 (db world_one_object)) n \<noteq> None)
        [''gone.ics''] = []"
    and a2: "filter (\<lambda>n. map_of (objects_of 3 (db world_one_object)) n \<noteq> None)
        (remdups [''gone.ics'', ''e1.ics'', ''gone.ics'']) = [''e1.ics'']"
    by (simp_all add: objects_of_def world_one_object_def world_user42_def empty_db_def)
  have ev0: "events world_one_object = []"
    by (simp add: world_one_object_def world_user42_def)
  from t have pall: "\<forall>names.
            fst (purgeBatch ''user42'' (Txn 0) 3 names world_one_object) = Returned ()
          \<and> purgeBatch ''user42'' (Txn 0) 3 names world_one_object
              = purgeBatch ''user42'' (Txn 0) 3
                  (filter (\<lambda>n. map_of (objects_of 3 (db world_one_object)) n \<noteq> None) names)
                  world_one_object
          \<and> events (snd (purgeBatch ''user42'' (Txn 0) 3 names world_one_object))
              = events world_one_object @ map (ObjectPurge 0 3)
                  (filter (\<lambda>n. map_of (objects_of 3 (db world_one_object)) n \<noteq> None)
                     (remdups names))"
    unfolding l3 by (elim conjE)
  from pall have p1: "fst (purgeBatch ''user42'' (Txn 0) 3 [''gone.ics'', ''e1.ics'', ''gone.ics'']
            world_one_object) = Returned ()"
    by blast
  from pall have "purgeBatch ''user42'' (Txn 0) 3 [''gone.ics'', ''e1.ics'', ''gone.ics'']
                    world_one_object
       = purgeBatch ''user42'' (Txn 0) 3
           (filter (\<lambda>n. map_of (objects_of 3 (db world_one_object)) n \<noteq> None)
              [''gone.ics'', ''e1.ics'', ''gone.ics'']) world_one_object"
    by blast
  then have p2: "purgeBatch ''user42'' (Txn 0) 3 [''gone.ics'', ''e1.ics'', ''gone.ics'']
                    world_one_object
       = purgeBatch ''user42'' (Txn 0) 3 [''e1.ics''] world_one_object"
    unfolding a .
  from pall have "events (snd (purgeBatch ''user42'' (Txn 0) 3
                     [''gone.ics'', ''e1.ics'', ''gone.ics''] world_one_object))
       = events world_one_object @ map (ObjectPurge 0 3)
           (filter (\<lambda>n. map_of (objects_of 3 (db world_one_object)) n \<noteq> None)
              (remdups [''gone.ics'', ''e1.ics'', ''gone.ics'']))"
    by blast
  then have p3: "events (snd (purgeBatch ''user42'' (Txn 0) 3
                     [''gone.ics'', ''e1.ics'', ''gone.ics''] world_one_object))
       = [ObjectPurge 0 3 ''e1.ics'']"
    unfolding a2 ev0 by simp
  from pall have "purgeBatch ''user42'' (Txn 0) 3 [''gone.ics''] world_one_object
       = purgeBatch ''user42'' (Txn 0) 3
           (filter (\<lambda>n. map_of (objects_of 3 (db world_one_object)) n \<noteq> None)
              [''gone.ics'']) world_one_object"
    by blast
  then have p4: "purgeBatch ''user42'' (Txn 0) 3 [''gone.ics''] world_one_object
       = purgeBatch ''user42'' (Txn 0) 3 [] world_one_object"
    unfolding a1 .
  from t obtain actual where
    f: "findObjectsToSync env_remote ''user42'' (Txn 0) record_10_3 world_one_object
          = (Returned (Some (actual, [])),
             log_event (ResourceNamesSinceToken (rcal_id (hd (remote_children env_remote)))
                          (m_lastSyncToken record_10_3)) world_one_object)"
    and d: "distinct actual"
    and s: "set actual = set (filter (needs_sync (hd (remote_children env_remote))
                                        (objects_of 3 (db world_one_object)))
                                [''e1.ics'', ''e2.ics''])"
    by blast
  have hdc: "the (remote_childWithID env_remote 10) = hd (remote_children env_remote)"
    by (simp add: env_remote_def remote_childWithID_def)
  from s n hdc have "set actual = {''e2.ics''}" by simp
  with d have "actual = [''e2.ics'']" by (rule distinct_singleton)
  with f have f': "findObjectsToSync env_remote ''user42'' (Txn 0) record_10_3 world_one_object
     = (Returned (Some ([''e2.ics''], [])),
        log_event (ResourceNamesSinceToken 10 None) world_one_object)"
    by (simp add: env_remote_def record_10_3_def)
  from f' n a p1 p2 p3 p4 show ?thesis by (intro conjI)
qed

subsection \<open>The attachment table\<close>


end
